theory Spec2Isabelle
  imports Main "HOL-Library.Word"
begin

section \<open>JavaScript values used by the package\<close>

text \<open>
  Strings received from a provider or a caller (hex strings, addresses, base64 text) are
  modelled as \<open>string\<close>: lists of code units below 256. Strings built with
  \<open>String.fromCharCode\<close> or returned by \<open>atob\<close> are lists of 16-bit code units.

  A JavaScript \<open>number\<close> is \<open>NaN\<close>, an integer-valued double \<open>Num i\<close>,
  \<open>Infinity\<close> or \<open>-Infinity\<close>. Every finite number the package computes is an
  integer; a conversion from a mathematical integer rounds to the nearest double
  (\<open>round_double\<close>) and overflows to an infinity (\<open>to_number\<close>). Sums and products of
  finite numbers are kept exact: they differ from the double results only at magnitudes of
  \<open>2 ^ 53\<close> and more, where the package uses them only as slice bounds, and every such
  bound is clamped to the length of the string. The two zeros of JavaScript are one value
  \<open>Num 0\<close>: they are equal under \<open>===\<close>, and \<open>slice\<close>, \<open>String.fromCharCode\<close>,
  \<open><\<close> and \<open>+ 27\<close> treat them alike.
\<close>

datatype jsnum = NaN | Num int | Infinity | NegInfinity

datatype error =
    SyntaxError
  | TypeError
  | InvalidCharacterError
  | Error string
  | Rejected string

type_synonym ustring = "16 word list"

text \<open>
  Arithmetic and comparison of numbers: \<open>NaN\<close> is absorbing and compares false; the sum
  of the two infinities and the product of an infinity and zero are \<open>NaN\<close>.
\<close>

fun num_add :: "jsnum \<Rightarrow> jsnum \<Rightarrow> jsnum" where
  "num_add (Num a) (Num b) = Num (a + b)"
| "num_add NaN _ = NaN"
| "num_add _ NaN = NaN"
| "num_add Infinity NegInfinity = NaN"
| "num_add NegInfinity Infinity = NaN"
| "num_add Infinity _ = Infinity"
| "num_add _ Infinity = Infinity"
| "num_add NegInfinity _ = NegInfinity"
| "num_add _ NegInfinity = NegInfinity"

fun num_mul :: "jsnum \<Rightarrow> jsnum \<Rightarrow> jsnum" where
  "num_mul (Num a) (Num b) = Num (a * b)"
| "num_mul NaN _ = NaN"
| "num_mul _ NaN = NaN"
| "num_mul Infinity (Num b) = (if b = 0 then NaN else if 0 < b then Infinity else NegInfinity)"
| "num_mul (Num a) Infinity = (if a = 0 then NaN else if 0 < a then Infinity else NegInfinity)"
| "num_mul Infinity Infinity = Infinity"
| "num_mul Infinity NegInfinity = NegInfinity"
| "num_mul NegInfinity (Num b) = (if b = 0 then NaN else if 0 < b then NegInfinity else Infinity)"
| "num_mul (Num a) NegInfinity = (if a = 0 then NaN else if 0 < a then NegInfinity else Infinity)"
| "num_mul NegInfinity Infinity = NegInfinity"
| "num_mul NegInfinity NegInfinity = Infinity"

fun num_lt :: "jsnum \<Rightarrow> jsnum \<Rightarrow> bool" where
  "num_lt (Num a) (Num b) = (a < b)"
| "num_lt NaN _ = False"
| "num_lt _ NaN = False"
| "num_lt Infinity _ = False"
| "num_lt _ Infinity = True"
| "num_lt _ NegInfinity = False"
| "num_lt NegInfinity _ = True"

text \<open>The number of binary digits of a natural number.\<close>

fun bit_length :: "nat \<Rightarrow> nat" where
  "bit_length n = (if n = 0 then 0 else Suc (bit_length (n div 2)))"

declare bit_length.simps [simp del]

text \<open>
  The Number value for a mathematical integer: the nearest double, ties to even.
  Integers below \<open>2 ^ 53\<close> in magnitude are doubles already.
\<close>

definition round_double :: "int \<Rightarrow> int" where
  "round_double i =
     (let a = \<bar>i\<bar> in
      if a < 2 ^ 53 then i
      else
        let e = bit_length (nat a) - 53;
            q = a div 2 ^ e;
            r = a mod 2 ^ e;
            h = 2 ^ (e - 1);
            q' = (if h < r \<or> (r = h \<and> odd q) then q + 1 else q)
        in sgn i * (q' * 2 ^ e))"

text \<open>
  The largest double is \<open>2 ^ 1024 - 2 ^ 971\<close>: an integer that rounds to \<open>2 ^ 1024\<close> or
  more in magnitude is an infinity.
\<close>

definition to_number :: "int \<Rightarrow> jsnum" where
  "to_number i =
     (let d = round_double i in
      if 2 ^ 1024 \<le> d then Infinity
      else if d \<le> - (2 ^ 1024) then NegInfinity
      else Num d)"

subsection \<open>String.prototype.slice\<close>

text \<open>
  A relative index: \<open>NaN\<close> is 0, a negative index counts from the end, and the result is
  clamped to the length, so \<open>Infinity\<close> is the length and \<open>-Infinity\<close> is 0.
\<close>

definition rel_index :: "nat \<Rightarrow> jsnum \<Rightarrow> nat" where
  "rel_index len x =
     (case x of
        NaN \<Rightarrow> 0
      | Num i \<Rightarrow> if i < 0 then nat (max (int len + i) 0) else min (nat i) len
      | Infinity \<Rightarrow> len
      | NegInfinity \<Rightarrow> 0)"

definition js_slice :: "string \<Rightarrow> jsnum \<Rightarrow> jsnum \<Rightarrow> string" where
  "js_slice s start end =
     (let len = length s;
          from = rel_index len start;
          to = rel_index len end
      in take (to - from) (drop from s))"

definition js_slice_from :: "string \<Rightarrow> jsnum \<Rightarrow> string" where
  "js_slice_from s start = drop (rel_index (length s) start) s"

subsection \<open>parseInt(s, 16)\<close>

definition is_white_space :: "char \<Rightarrow> bool" where
  "is_white_space c = (of_char c \<in> {9, 10, 11, 12, 13, 32, 160 :: nat})"

definition hex_digit :: "char \<Rightarrow> nat option" where
  "hex_digit c =
     (let n = (of_char c :: nat) in
      if 48 \<le> n \<and> n \<le> 57 then Some (n - 48)
      else if 97 \<le> n \<and> n \<le> 102 then Some (n - 87)
      else if 65 \<le> n \<and> n \<le> 70 then Some (n - 55)
      else None)"

definition is_hex :: "char \<Rightarrow> bool" where
  "is_hex c = (hex_digit c \<noteq> None)"

text \<open>The value of a list of digits in a radix, most significant digit first.\<close>

definition digits_value :: "nat \<Rightarrow> nat list \<Rightarrow> nat" where
  "digits_value radix ds = foldl (\<lambda>acc d. acc * radix + d) 0 ds"

definition hex_value :: "string \<Rightarrow> nat" where
  "hex_value s = digits_value 16 (map (\<lambda>c. the (hex_digit c)) s)"

text \<open>
  \<open>parseInt(s, 16)\<close>: skip leading white space, take a sign, skip a \<open>0x\<close> or \<open>0X\<close>
  prefix, read the longest run of hexadecimal digits; no digit gives \<open>NaN\<close>. The
  result is the Number value of the signed integer that the digits denote.
\<close>

definition strip_hex_prefix :: "string \<Rightarrow> string" where
  "strip_hex_prefix s =
     (if take 2 s = ''0x'' \<or> take 2 s = ''0X'' then drop 2 s else s)"

definition parseInt16 :: "string \<Rightarrow> jsnum" where
  "parseInt16 inputString =
     (let s = dropWhile is_white_space inputString;
          sign = (if take 1 s = ''-'' then - 1 else 1 :: int);
          s1 = (if take 1 s = ''-'' \<or> take 1 s = ''+'' then drop 1 s else s);
          s2 = strip_hex_prefix s1;
          z = takeWhile is_hex s2
      in if z = [] then NaN else to_number (sign * int (hex_value z)))"

section \<open>The signature parser (evm-permit/sign-permit.ts)\<close>

text \<open>The object \<open>{ v, r, s }\<close> returned by the parser.\<close>

record ecdsa_signature =
  sig_v :: jsnum
  sig_r :: string
  sig_s :: string

definition parseSignature :: "string \<Rightarrow> ecdsa_signature" where
  "parseSignature signature =
     (let sig = js_slice_from signature (Num 2);
          r = ''0x'' @ js_slice sig (Num 0) (Num 64);
          s = ''0x'' @ js_slice sig (Num 64) (Num 128);
          v = parseInt16 (js_slice sig (Num 128) (Num 130));
          v = (if num_lt v (Num 27) then num_add v (Num 27) else v)
      in \<lparr>sig_v = v, sig_r = r, sig_s = s\<rparr>)"

section \<open>More JavaScript primitives\<close>

subsection \<open>String.prototype.replace with a string pattern\<close>

text \<open>Only the first occurrence of the pattern is replaced.\<close>

fun js_replace :: "string \<Rightarrow> string \<Rightarrow> string \<Rightarrow> string" where
  "js_replace pat rep [] = (if pat = [] then rep else [])"
| "js_replace pat rep (c # cs) =
     (if take (length pat) (c # cs) = pat then rep @ drop (length pat) (c # cs)
      else c # js_replace pat rep cs)"

subsection \<open>toLowerCase and padStart\<close>




subsection \<open>BigInt(string), BigInt.prototype.toString and Number(bigint)\<close>

definition trim :: "string \<Rightarrow> string" where
  "trim str = rev (dropWhile is_white_space (rev (dropWhile is_white_space str)))"

text \<open>A run of digits of a radix: at least one digit, and nothing else.\<close>

definition radix_digit :: "nat \<Rightarrow> char \<Rightarrow> bool" where
  "radix_digit radix c = (case hex_digit c of None \<Rightarrow> False | Some d \<Rightarrow> d < radix)"

definition parse_digits :: "nat \<Rightarrow> string \<Rightarrow> error + int" where
  "parse_digits radix ds =
     (if ds \<noteq> [] \<and> list_all (radix_digit radix) ds
      then Inr (int (digits_value radix (map (\<lambda>c. the (hex_digit c)) ds)))
      else Inl SyntaxError)"

text \<open>
  \<open>BigInt(str)\<close>: white space is trimmed at both ends; the empty string is 0; a
  \<open>0x\<close>, \<open>0o\<close> or \<open>0b\<close> prefix (either case) selects the radix and takes no sign;
  otherwise an optional sign and decimal digits. Anything else throws a SyntaxError.
\<close>

definition BigInt :: "string \<Rightarrow> error + int" where
  "BigInt str =
     (let t = trim str in
      if t = [] then Inr 0
      else if take 2 t = ''0x'' \<or> take 2 t = ''0X'' then parse_digits 16 (drop 2 t)
      else if take 2 t = ''0o'' \<or> take 2 t = ''0O'' then parse_digits 8 (drop 2 t)
      else if take 2 t = ''0b'' \<or> take 2 t = ''0B'' then parse_digits 2 (drop 2 t)
      else if take 1 t = ''-'' then
        (case parse_digits 10 (drop 1 t) of Inl e \<Rightarrow> Inl e | Inr n \<Rightarrow> Inr (- n))
      else if take 1 t = ''+'' then parse_digits 10 (drop 1 t)
      else parse_digits 10 t)"






subsection \<open>String.fromCharCode\<close>

text \<open>
  The argument is converted to a 16-bit code unit; \<open>NaN\<close> and the infinities become 0.
\<close>

definition fromCharCode :: "jsnum \<Rightarrow> 16 word" where
  "fromCharCode x =
     (case x of NaN \<Rightarrow> 0 | Num i \<Rightarrow> word_of_int i | Infinity \<Rightarrow> 0 | NegInfinity \<Rightarrow> 0)"

section \<open>Permit2 allowance (evm-permit2/allowance.ts)\<close>

text \<open>
  \<open>Permit2Allowance\<close>: \<open>amount\<close> is a bigint; \<open>expiration\<close> and \<open>nonce\<close> are
  numbers made by \<open>Number(BigInt(...))\<close> from at most 64 hexadecimal digits, hence
  integer-valued doubles below \<open>2 ^ 256\<close>.
\<close>

record Permit2Allowance =
  p2_amount :: int
  p2_expiration :: int
  p2_nonce :: int

definition decodeAllowanceResult :: "string \<Rightarrow> error + Permit2Allowance" where
  "decodeAllowanceResult result =
     (let hex = js_replace ''0x'' '''' result;
          amountHex = js_slice hex (Num 0) (Num 64)
      in case BigInt (''0x'' @ amountHex) of
           Inl e \<Rightarrow> Inl e
         | Inr amount \<Rightarrow>
             (let expirationHex = js_slice hex (Num 64) (Num 128)
              in case BigInt (''0x'' @ expirationHex) of
                   Inl e \<Rightarrow> Inl e
                 | Inr ex \<Rightarrow>
                     (let expiration = round_double ex;
                          nonceHex = js_slice hex (Num 128) (Num 192)
                      in case BigInt (''0x'' @ nonceHex) of
                           Inl e \<Rightarrow> Inl e
                         | Inr no \<Rightarrow>
                             Inr \<lparr>p2_amount = amount, p2_expiration = expiration,
                                  p2_nonce = round_double no\<rparr>)))"


section \<open>The EIP-1193 provider\<close>

text \<open>
  A value handed to \<open>JSON.stringify\<close>: the typed data of a signing request is kept as
  the tree that is serialised.
\<close>

datatype json =
    JString string
  | JUString ustring
  | JNumber int
  | JArray "json list"
  | JObject "(string \<times> json) list"


text \<open>
  The requests the package sends through \<open>provider.request\<close>: \<open>eth_call\<close> with
  \<open>{to, data}\<close> at block \<open>latest\<close>, \<open>eth_chainId\<close>, \<open>eth_accounts\<close>,
  \<open>eth_requestAccounts\<close>, and \<open>eth_signTypedData_v4\<close> with the signer and the typed
  data.
\<close>

datatype rpc_request =
    EthCall string string
  | EthChainId
  | EthAccounts
  | EthRequestAccounts
  | EthSignTypedDataV4 string json

text \<open>
  The provider is an external collaborator with a state of its own. Each method answers
  with an error (the promise rejects) or with a value of the type the package casts the
  answer to, and moves the provider to a new state.
\<close>

record 's provider =
  eth_call :: "string \<Rightarrow> string \<Rightarrow> 's \<Rightarrow> (error + string) \<times> 's"
  eth_chainId :: "'s \<Rightarrow> (error + string) \<times> 's"
  eth_accounts :: "'s \<Rightarrow> (error + string list) \<times> 's"
  eth_requestAccounts :: "'s \<Rightarrow> (error + string list) \<times> 's"
  eth_signTypedData_v4 :: "string \<Rightarrow> json \<Rightarrow> 's \<Rightarrow> (error + string) \<times> 's"

text \<open>The world: the state of the provider and the requests sent so far, oldest first.\<close>

type_synonym 's world = "'s \<times> rpc_request list"

definition request_eth_call ::
  "'s provider \<Rightarrow> string \<Rightarrow> string \<Rightarrow> 's world \<Rightarrow> (error + string) \<times> 's world" where
  "request_eth_call P to data w =
     (case eth_call P to data (fst w) of
        (res, st) \<Rightarrow> (res, (st, snd w @ [EthCall to data])))"

definition request_eth_chainId :: "'s provider \<Rightarrow> 's world \<Rightarrow> (error + string) \<times> 's world" where
  "request_eth_chainId P w =
     (case eth_chainId P (fst w) of (res, st) \<Rightarrow> (res, (st, snd w @ [EthChainId])))"

definition request_eth_accounts ::
  "'s provider \<Rightarrow> 's world \<Rightarrow> (error + string list) \<times> 's world" where
  "request_eth_accounts P w =
     (case eth_accounts P (fst w) of (res, st) \<Rightarrow> (res, (st, snd w @ [EthAccounts])))"

definition request_eth_requestAccounts ::
  "'s provider \<Rightarrow> 's world \<Rightarrow> (error + string list) \<times> 's world" where
  "request_eth_requestAccounts P w =
     (case eth_requestAccounts P (fst w) of
        (res, st) \<Rightarrow> (res, (st, snd w @ [EthRequestAccounts])))"

definition request_eth_signTypedData_v4 ::
  "'s provider \<Rightarrow> string \<Rightarrow> json \<Rightarrow> 's world \<Rightarrow> (error + string) \<times> 's world" where
  "request_eth_signTypedData_v4 P signer typedData w =
     (case eth_signTypedData_v4 P signer typedData (fst w) of
        (res, st) \<Rightarrow> (res, (st, snd w @ [EthSignTypedDataV4 signer typedData])))"

section \<open>ERC-20 permit constants (evm-permit/constants.ts)\<close>

definition NAME_SELECTOR :: string where
  "NAME_SELECTOR = ''0x06fdde03''"


definition EIP712_DOMAIN_SELECTOR :: string where
  "EIP712_DOMAIN_SELECTOR = ''0x84b0196e''"

definition DEFAULT_PERMIT_VERSION :: ustring where
  "DEFAULT_PERMIT_VERSION = [49]"

definition eip712_field :: "string \<Rightarrow> string \<Rightarrow> json" where
  "eip712_field n t = JObject [(''name'', JString n), (''type'', JString t)]"

definition ERC20_PERMIT_TYPES :: "(string \<times> json) list" where
  "ERC20_PERMIT_TYPES =
     [(''Permit'', JArray
        [eip712_field ''owner'' ''address'',
         eip712_field ''spender'' ''address'',
         eip712_field ''value'' ''uint256'',
         eip712_field ''nonce'' ''uint256'',
         eip712_field ''deadline'' ''uint256''])]"

text \<open>
  The selector \<open>VERSION_SELECTOR\<close> is imported by allowance.ts from a version of
  constants.ts that is not at hand; the functions that use it take it as a parameter.
\<close>

section \<open>ERC-20 permit allowance and domain (evm-permit/allowance.ts)\<close>

text \<open>
  \<open>hexToString\<close>: the loop reads two characters at a time (one at the end of a string
  of odd length) and appends the code unit that \<open>parseInt\<close> gives.
\<close>

fun hexToString :: "string \<Rightarrow> ustring" where
  "hexToString [] = []"
| "hexToString [a] = [fromCharCode (parseInt16 [a])]"
| "hexToString (a # b # rest) = fromCharCode (parseInt16 [a, b]) # hexToString rest"

text \<open>
  \<open>getTokenName\<close>. The loop at the end of the source function is the loop of
  \<open>hexToString\<close>, written out in place.
\<close>

definition getTokenName ::
  "'s provider \<Rightarrow> string \<Rightarrow> 's world \<Rightarrow> (error + ustring) \<times> 's world" where
  "getTokenName P tokenAddress w =
     (case request_eth_call P tokenAddress NAME_SELECTOR w of
        (Inl e, w1) \<Rightarrow> (Inl e, w1)
      | (Inr result, w1) \<Rightarrow>
          (let hex = js_slice_from result (Num 2);
               length = parseInt16 (js_slice hex (Num 64) (Num 128));
               nameHex = js_slice hex (Num 128) (num_add (Num 128) (num_mul length (Num 2)))
           in (Inr (hexToString nameHex), w1)))"





text \<open>
  \<open>getTokenVersion\<close>: the whole body is inside \<open>try\<close>; a rejected call gives the
  default version. The decoding itself cannot throw.
\<close>

definition getTokenVersion ::
  "'s provider \<Rightarrow> string \<Rightarrow> string \<Rightarrow> 's world \<Rightarrow> ustring \<times> 's world" where
  "getTokenVersion P VERSION_SELECTOR tokenAddress w =
     (case request_eth_call P tokenAddress VERSION_SELECTOR w of
        (Inl e, w1) \<Rightarrow> (DEFAULT_PERMIT_VERSION, w1)
      | (Inr result, w1) \<Rightarrow>
          (let hex = js_slice_from result (Num 2);
               length = parseInt16 (js_slice hex (Num 64) (Num 128));
               versionHex = js_slice hex (Num 128) (num_add (Num 128) (num_mul length (Num 2)))
           in (hexToString versionHex, w1)))"

record Eip712DomainInfo =
  dom_name :: ustring
  dom_version :: ustring
  dom_chainId :: jsnum
  dom_verifyingContract :: string

text \<open>
  \<open>decodeEip712Domain\<close>. The chain id is \<open>Number(BigInt(...))\<close> of a slice of at most
  64 hexadecimal digits, a finite number.
\<close>

definition decodeEip712Domain :: "string \<Rightarrow> string \<Rightarrow> error + Eip712DomainInfo" where
  "decodeEip712Domain result tokenAddress =
     (let hex = js_slice_from result (Num 2);
          chainIdHex = js_slice hex (Num 192) (Num 256)
      in case BigInt (''0x'' @ chainIdHex) of
           Inl e \<Rightarrow> Inl e
         | Inr c \<Rightarrow>
             (let chainId = Num (round_double c);
                  nameOffsetHex = js_slice hex (Num 64) (Num 128);
                  nameOffset = num_mul (parseInt16 nameOffsetHex) (Num 2);
                  nameLengthHex = js_slice hex nameOffset (num_add nameOffset (Num 64));
                  nameLength = parseInt16 nameLengthHex;
                  nameHex = js_slice hex (num_add nameOffset (Num 64))
                              (num_add (num_add nameOffset (Num 64)) (num_mul nameLength (Num 2)));
                  name = hexToString nameHex;
                  versionOffsetHex = js_slice hex (Num 128) (Num 192);
                  versionOffset = num_mul (parseInt16 versionOffsetHex) (Num 2);
                  versionLengthHex = js_slice hex versionOffset (num_add versionOffset (Num 64));
                  versionLength = parseInt16 versionLengthHex;
                  versionHex = js_slice hex (num_add versionOffset (Num 64))
                                 (num_add (num_add versionOffset (Num 64))
                                    (num_mul versionLength (Num 2)));
                  version = hexToString versionHex
              in Inr \<lparr>dom_name = name, dom_version = version, dom_chainId = chainId,
                      dom_verifyingContract = tokenAddress\<rparr>))"

text \<open>The \<open>catch\<close> block of \<open>getEip712Domain\<close>: three separate requests.\<close>

definition getEip712Domain_catch ::
  "'s provider \<Rightarrow> string \<Rightarrow> string \<Rightarrow> 's world \<Rightarrow> (error + Eip712DomainInfo) \<times> 's world" where
  "getEip712Domain_catch P VERSION_SELECTOR tokenAddress w =
     (case getTokenName P tokenAddress w of
        (Inl e, w1) \<Rightarrow> (Inl e, w1)
      | (Inr name, w1) \<Rightarrow>
          (case getTokenVersion P VERSION_SELECTOR tokenAddress w1 of
             (version, w2) \<Rightarrow>
               (case request_eth_chainId P w2 of
                  (Inl e, w3) \<Rightarrow> (Inl e, w3)
                | (Inr chainIdHex, w3) \<Rightarrow>
                    (Inr \<lparr>dom_name = name, dom_version = version,
                          dom_chainId = parseInt16 chainIdHex,
                          dom_verifyingContract = tokenAddress\<rparr>, w3))))"

text \<open>
  \<open>getEip712Domain\<close>: the request and the decoding are both inside \<open>try\<close>, so a
  rejected call and a decoding that throws both lead to the \<open>catch\<close> block.
\<close>

definition getEip712Domain ::
  "'s provider \<Rightarrow> string \<Rightarrow> string \<Rightarrow> 's world \<Rightarrow> (error + Eip712DomainInfo) \<times> 's world" where
  "getEip712Domain P VERSION_SELECTOR tokenAddress w =
     (case request_eth_call P tokenAddress EIP712_DOMAIN_SELECTOR w of
        (Inl e, w1) \<Rightarrow> getEip712Domain_catch P VERSION_SELECTOR tokenAddress w1
      | (Inr result, w1) \<Rightarrow>
          (case decodeEip712Domain result tokenAddress of
             Inl e \<Rightarrow> getEip712Domain_catch P VERSION_SELECTOR tokenAddress w1
           | Inr d \<Rightarrow> (Inr d, w1)))"

section \<open>A scripted provider for concrete runs\<close>

text \<open>
  A provider whose answers are fixed in advance: an \<open>eth_call\<close> is answered by its call
  data, every other method by one fixed answer. Its state counts the requests served.
\<close>

definition scripted_provider ::
  "(string \<Rightarrow> error + string) \<Rightarrow> (error + string) \<Rightarrow> (error + string list)
     \<Rightarrow> (error + string list) \<Rightarrow> (error + string) \<Rightarrow> nat provider" where
  "scripted_provider calls chain accounts granted sig =
     \<lparr>eth_call = (\<lambda>to data n. (calls data, Suc n)),
      eth_chainId = (\<lambda>n. (chain, Suc n)),
      eth_accounts = (\<lambda>n. (accounts, Suc n)),
      eth_requestAccounts = (\<lambda>n. (granted, Suc n)),
      eth_signTypedData_v4 = (\<lambda>signer typedData n. (sig, Suc n))\<rparr>"

section \<open>Signing an ERC-20 permit (evm-permit/sign-permit.ts)\<close>

text \<open>
  \<open>SignERC20PermitParams\<close> without the provider, which the model passes separately.
  An optional field is \<open>None\<close> when it is \<open>undefined\<close>.
\<close>

record SignERC20PermitParams =
  sp_chainId :: int
  sp_tokenAddress :: string
  sp_tokenName :: string
  sp_spenderAddress :: string
  sp_value :: string
  sp_nonce :: int
  sp_deadlineMinutes :: "int option"
  sp_signerAddress :: "string option"

record ERC20PermitSignature =
  ps_value :: string
  ps_deadline :: int
  ps_v :: jsnum
  ps_r :: string
  ps_s :: string

record SignERC20PermitResult =
  res_permitSignature :: ERC20PermitSignature
  res_signerAddress :: string

text \<open>
  \<open>signERC20Permit\<close>. \<open>now_ms\<close> is the value of \<open>Date.now()\<close>, read once at the
  start. The \<open>tokenName\<close> and \<open>provider\<close> fields are taken out of the parameters
  like the others; \<open>expectedSignerAddress || accounts[0]\<close> takes the first account when
  the expected address is undefined or empty.
\<close>

definition signERC20Permit ::
  "'s provider \<Rightarrow> string \<Rightarrow> int \<Rightarrow> SignERC20PermitParams \<Rightarrow> 's world
     \<Rightarrow> (error + SignERC20PermitResult) \<times> 's world" where
  "signERC20Permit P VERSION_SELECTOR now_ms params w =
     (let chainId = sp_chainId params;
          tokenAddress = sp_tokenAddress params;
          tokenName = sp_tokenName params;
          spenderAddress = sp_spenderAddress params;
          val = sp_value params;
          nonce = sp_nonce params;
          deadlineMinutes = (case sp_deadlineMinutes params of None \<Rightarrow> 60 | Some m \<Rightarrow> m);
          expectedSignerAddress = sp_signerAddress params;
          now = now_ms div 1000;
          deadline = now + deadlineMinutes * 60
      in case request_eth_accounts P w of
           (Inl e, w1) \<Rightarrow> (Inl e, w1)
         | (Inr accounts0, w1) \<Rightarrow>
             (case (if accounts0 = [] then request_eth_requestAccounts P w1
                    else (Inr accounts0, w1)) of
                (Inl e, w2) \<Rightarrow> (Inl e, w2)
              | (Inr accounts, w2) \<Rightarrow>
                  if accounts = [] then (Inl (Error ''No connected accounts''), w2)
                  else
                    (let signerAddress =
                           (case expectedSignerAddress of
                              None \<Rightarrow> hd accounts
                            | Some a \<Rightarrow> if a = [] then hd accounts else a)
                     in case getEip712Domain P VERSION_SELECTOR tokenAddress w2 of
                          (Inl e, w3) \<Rightarrow> (Inl e, w3)
                        | (Inr domainInfo, w3) \<Rightarrow>
                            (let domain = JObject
                                   [(''name'', JUString (dom_name domainInfo)),
                                    (''version'', JUString (dom_version domainInfo)),
                                    (''chainId'', JNumber chainId),
                                    (''verifyingContract'', JString tokenAddress)];
                                 message = JObject
                                   [(''owner'', JString signerAddress),
                                    (''spender'', JString spenderAddress),
                                    (''value'', JString val),
                                    (''nonce'', JNumber nonce),
                                    (''deadline'', JNumber deadline)];
                                 typedData = JObject
                                   [(''types'', JObject
                                      ((''EIP712Domain'', JArray
                                          [eip712_field ''name'' ''string'',
                                           eip712_field ''version'' ''string'',
                                           eip712_field ''chainId'' ''uint256'',
                                           eip712_field ''verifyingContract'' ''address''])
                                       # ERC20_PERMIT_TYPES)),
                                    (''primaryType'', JString ''Permit''),
                                    (''domain'', domain),
                                    (''message'', message)]
                             in case request_eth_signTypedData_v4 P signerAddress typedData w3 of
                                  (Inl e, w4) \<Rightarrow> (Inl e, w4)
                                | (Inr signature, w4) \<Rightarrow>
                                    (let sg = parseSignature signature;
                                         permitSignature =
                                           \<lparr>ps_value = val, ps_deadline = deadline,
                                            ps_v = sig_v sg, ps_r = sig_r sg, ps_s = sig_s sg\<rparr>
                                     in (Inr \<lparr>res_permitSignature = permitSignature,
                                               res_signerAddress = signerAddress\<rparr>, w4))))))"

section \<open>Signing a Permit2 permit (evm-permit2/sign-permit.ts, evm-permit2/constants.ts)\<close>









section \<open>Base64 (the platform functions btoa and atob)\<close>

definition b64_alphabet :: string where
  "b64_alphabet = ''ABCDEFGHIJKLMNOPQRSTUVWXYZabcdefghijklmnopqrstuvwxyz0123456789+/''"

definition b64_char :: "nat \<Rightarrow> char" where
  "b64_char n = b64_alphabet ! n"

fun index_of :: "'a \<Rightarrow> 'a list \<Rightarrow> nat option" where
  "index_of c [] = None"
| "index_of c (x # xs) = (if c = x then Some 0 else map_option Suc (index_of c xs))"

definition b64_index :: "char \<Rightarrow> nat option" where
  "b64_index c = index_of c b64_alphabet"

definition is_b64 :: "char \<Rightarrow> bool" where
  "is_b64 c = (b64_index c \<noteq> None)"

text \<open>
  Encoding bytes: three bytes give four characters; one or two bytes at the end give two
  or three characters and padding.
\<close>

fun b64_encode :: "nat list \<Rightarrow> string" where
  "b64_encode [] = []"
| "b64_encode [a] =
     [b64_char (a div 4), b64_char (a mod 4 * 16), CHR ''='', CHR ''='']"
| "b64_encode [a, b] =
     [b64_char (a div 4), b64_char (a mod 4 * 16 + b div 16), b64_char (b mod 16 * 4),
      CHR ''='']"
| "b64_encode (a # b # c # rest) =
     [b64_char (a div 4), b64_char (a mod 4 * 16 + b div 16),
      b64_char (b mod 16 * 4 + c div 64), b64_char (c mod 64)] @ b64_encode rest"

text \<open>
  \<open>btoa\<close> takes a binary string; a code unit above 255 is an InvalidCharacterError.
\<close>

definition btoa :: "ustring \<Rightarrow> error + string" where
  "btoa data =
     (if list_ex (\<lambda>c. 255 < unat c) data then Inl InvalidCharacterError
      else Inr (b64_encode (map unat data)))"

text \<open>
  Decoding 6-bit values: four values give three bytes; of three values at the end the last
  two bits are dropped, of two values the last four bits.
\<close>

fun b64_decode :: "nat list \<Rightarrow> nat list" where
  "b64_decode [] = []"
| "b64_decode [a] = []"
| "b64_decode [a, b] = [a * 4 + b div 16]"
| "b64_decode [a, b, c] = [a * 4 + b div 16, b mod 16 * 16 + c div 4]"
| "b64_decode (a # b # c # d # rest) =
     [a * 4 + b div 16, b mod 16 * 16 + c div 4, c mod 4 * 64 + d] @ b64_decode rest"

definition is_ascii_whitespace :: "char \<Rightarrow> bool" where
  "is_ascii_whitespace c = (of_char c \<in> {9, 10, 12, 13, 32 :: nat})"

definition strip_padding :: "string \<Rightarrow> string" where
  "strip_padding d =
     (if 2 \<le> length d \<and> last d = CHR ''='' \<and> last (butlast d) = CHR ''=''
      then butlast (butlast d)
      else if d \<noteq> [] \<and> last d = CHR ''='' then butlast d
      else d)"

text \<open>
  \<open>atob\<close> (forgiving base64 decoding): ASCII white space is removed; when the length is
  a multiple of four, one or two padding characters at the end are removed; a length of
  one more than a multiple of four, or a character outside the alphabet, is an
  InvalidCharacterError. The result is a binary string.
\<close>

definition atob :: "string \<Rightarrow> error + ustring" where
  "atob data =
     (let d0 = filter (\<lambda>c. \<not> is_ascii_whitespace c) data;
          d = (if length d0 mod 4 = 0 then strip_padding d0 else d0)
      in if length d mod 4 = 1 \<or> \<not> list_all is_b64 d then Inl InvalidCharacterError
         else Inr (map word_of_nat (b64_decode (map (\<lambda>c. the (b64_index c)) d))))"

section \<open>Solana signing helpers (svm-delegate/sign-tx.ts)\<close>

text \<open>
  \<open>base64ToUint8Array\<close>: the loop stores \<open>binary.charCodeAt(i)\<close> into a
  \<open>Uint8Array\<close>, which keeps the low eight bits.
\<close>

definition base64ToUint8Array :: "string \<Rightarrow> error + 8 word list" where
  "base64ToUint8Array base64 =
     (case atob base64 of
        Inl e \<Rightarrow> Inl e
      | Inr binary \<Rightarrow> Inr (map (\<lambda>c. ucast c) binary))"

text \<open>
  \<open>uint8ArrayToBase64\<close>: the loop appends \<open>String.fromCharCode(bytes[i])\<close> for each
  byte, then \<open>btoa\<close> encodes the binary string.
\<close>

definition uint8ArrayToBase64 :: "8 word list \<Rightarrow> error + string" where
  "uint8ArrayToBase64 bytes = btoa (map (\<lambda>b. fromCharCode (Num (uint b))) bytes)"

text \<open>
  The wallet globals that the helpers read, in the order of the source:
  \<open>window.phantom?.solana\<close>, \<open>window.solflare\<close>, \<open>window.okxwallet?.solana\<close>,
  \<open>window.coinbaseSolana\<close> and \<open>window.backpack?.solana\<close>.
\<close>

datatype wallet =
  PhantomWallet | SolflareWallet | OkxWallet | CoinbaseWallet | BackpackWallet

text \<open>
  What reading a public key gives: \<open>null\<close>, a key whose \<open>toString()\<close> throws, or
  the string of the key.
\<close>

datatype public_key = Null | Throws error | Key string

record SolanaProvider =
  isConnected :: bool
  publicKey :: public_key

text \<open>
  The window maps each global to the provider object it holds, if any. A provider's
  \<open>connect()\<close> is external: it rejects or resolves with the public key of its answer,
  and leaves the provider object in a new state.
\<close>

type_synonym window = "wallet \<Rightarrow> SolanaProvider option"

type_synonym connect_fn =
  "wallet \<Rightarrow> SolanaProvider \<Rightarrow> (error + public_key) \<times> SolanaProvider"

text \<open>
  The loop of \<open>findConnectedProvider\<close>: a missing provider is skipped; a provider that
  is not connected is skipped without reading its key; a key that cannot be read is skipped
  by the \<open>catch\<close>; the first connected provider whose key is the expected address is
  returned.
\<close>

fun find_provider :: "window \<Rightarrow> string \<Rightarrow> wallet list \<Rightarrow> wallet option" where
  "find_provider win expectedAddress [] = None"
| "find_provider win expectedAddress (wl # rest) =
     (case win wl of
        None \<Rightarrow> find_provider win expectedAddress rest
      | Some provider \<Rightarrow>
          if isConnected provider then
            (case publicKey provider of
               Key k \<Rightarrow>
                 if k = expectedAddress then Some wl
                 else find_provider win expectedAddress rest
             | Null \<Rightarrow> find_provider win expectedAddress rest
             | Throws e \<Rightarrow> find_provider win expectedAddress rest)
          else find_provider win expectedAddress rest)"

definition findConnectedProvider :: "window \<Rightarrow> string \<Rightarrow> wallet option" where
  "findConnectedProvider win expectedAddress =
     find_provider win expectedAddress [PhantomWallet, SolflareWallet, OkxWallet, CoinbaseWallet, BackpackWallet]"

text \<open>
  \<open>connectSolanaWallet\<close> returns the global whose provider object it hands back,
  together with the window after the \<open>connect()\<close> calls it made. The Phantom step
  compares the key in the answer of \<open>connect()\<close>; the Solflare step compares the key
  of the provider after \<open>connect()\<close>. Both steps swallow what is thrown inside them.
  \<open>solflare_step\<close> is step 3 of the source function followed by its final
  \<open>throw\<close>.
\<close>

definition not_found :: "string \<Rightarrow> error" where
  "not_found expectedAddress =
     Error (''Could not find wallet with address: '' @ expectedAddress @
            ''. Please connect the correct wallet.'')"

definition solflare_step ::
  "connect_fn \<Rightarrow> window \<Rightarrow> string \<Rightarrow> (error + wallet) \<times> window" where
  "solflare_step connect win expectedAddress =
     (case win SolflareWallet of
        None \<Rightarrow> (Inl (not_found expectedAddress), win)
      | Some provider \<Rightarrow>
          (case connect SolflareWallet provider of
             (Inl e, provider') \<Rightarrow>
               (Inl (not_found expectedAddress), win(SolflareWallet \<mapsto> provider'))
           | (Inr resp, provider') \<Rightarrow>
               (case publicKey provider' of
                  Key k \<Rightarrow>
                    if k = expectedAddress then (Inr SolflareWallet, win(SolflareWallet \<mapsto> provider'))
                    else (Inl (not_found expectedAddress), win(SolflareWallet \<mapsto> provider'))
                | Null \<Rightarrow> (Inl (not_found expectedAddress), win(SolflareWallet \<mapsto> provider'))
                | Throws e \<Rightarrow>
                    (Inl (not_found expectedAddress), win(SolflareWallet \<mapsto> provider')))))"

definition connectSolanaWallet ::
  "connect_fn \<Rightarrow> window \<Rightarrow> string \<Rightarrow> (error + wallet) \<times> window" where
  "connectSolanaWallet connect win expectedAddress =
     (case findConnectedProvider win expectedAddress of
        Some connected \<Rightarrow> (Inr connected, win)
      | None \<Rightarrow>
          (case win PhantomWallet of
             None \<Rightarrow> solflare_step connect win expectedAddress
           | Some provider \<Rightarrow>
               (case connect PhantomWallet provider of
                  (Inl e, provider') \<Rightarrow>
                    solflare_step connect (win(PhantomWallet \<mapsto> provider')) expectedAddress
                | (Inr resp, provider') \<Rightarrow>
                    (case resp of
                       Key k \<Rightarrow>
                         if k = expectedAddress
                         then (Inr PhantomWallet, win(PhantomWallet \<mapsto> provider'))
                         else solflare_step connect (win(PhantomWallet \<mapsto> provider'))
                                expectedAddress
                     | Null \<Rightarrow>
                         solflare_step connect (win(PhantomWallet \<mapsto> provider')) expectedAddress
                     | Throws e \<Rightarrow>
                         solflare_step connect (win(PhantomWallet \<mapsto> provider'))
                           expectedAddress))))"

section \<open>Facts about the JavaScript primitives\<close>

lemma round_double_small: "\<bar>i\<bar> < 2 ^ 53 \<Longrightarrow> round_double i = i"
  by (simp add: round_double_def Let_def)

lemma to_number_small: "\<bar>i\<bar> < 2 ^ 53 \<Longrightarrow> to_number i = Num i"
proof -
  assume a: "\<bar>i\<bar> < 2 ^ 53"
  have "(2 :: int) ^ 53 \<le> 2 ^ 1024" by (rule power_increasing) simp_all
  with a have "i < 2 ^ 1024" "- (2 ^ 1024) < i" by linarith+
  then show ?thesis using a by (simp add: to_number_def round_double_small)
qed

lemma hex_digit_lt: "hex_digit c = Some d \<Longrightarrow> d < 16"
  by (auto simp: hex_digit_def Let_def split: if_splits)

lemma js_slice_nonneg:
  "0 \<le> a \<Longrightarrow> 0 \<le> b \<Longrightarrow> js_slice s (Num a) (Num b) = take (nat b - nat a) (drop (nat a) s)"
  by (cases "nat a < length s"; cases "nat b < length s")
     (auto simp: js_slice_def rel_index_def Let_def min_def)

lemma js_slice_from_nonneg:
  "0 \<le> a \<Longrightarrow> js_slice_from s (Num a) = drop (nat a) s"
  by (simp add: js_slice_from_def rel_index_def min_def)

lemma is_hex_not_special:
  assumes "is_hex c"
  shows "\<not> is_white_space c" "c \<noteq> CHR ''-''" "c \<noteq> CHR ''+''" "c \<noteq> CHR ''x''" "c \<noteq> CHR ''X''"
  using assms
  by (auto simp: is_hex_def hex_digit_def is_white_space_def Let_def split: if_splits)

lemma parseInt16_hex:
  assumes "z \<noteq> []" "list_all is_hex z"
  shows "parseInt16 z = to_number (int (hex_value z))"
proof -
  obtain c cs where z: "z = c # cs" using assms(1) by (cases z) auto
  have c: "is_hex c" using assms(2) z by simp
  have 1: "dropWhile is_white_space z = z" using is_hex_not_special(1)[OF c] z by simp
  have 2: "take 1 z \<noteq> ''-''" "take 1 z \<noteq> ''+''" using is_hex_not_special[OF c] z by auto
  have 3: "strip_hex_prefix z = z"
  proof (cases cs)
    case Nil then show ?thesis using z by (simp add: strip_hex_prefix_def)
  next
    case (Cons d ds)
    then have "is_hex d" using assms(2) z by simp
    then show ?thesis using z Cons is_hex_not_special[of d] by (auto simp: strip_hex_prefix_def)
  qed
  have 4: "takeWhile is_hex z = z" using assms(2) by (simp add: list_all_iff)
  show ?thesis unfolding parseInt16_def Let_def 1 using 2 assms(1) by (simp add: 3 4)
qed

lemma digits_value_snoc: "digits_value b (ds @ [d]) = digits_value b ds * b + d"
  by (simp add: digits_value_def)

lemma digits_value_bound:
  "list_all (\<lambda>d. d < b) ds \<Longrightarrow> digits_value b ds < b ^ length ds"
proof (induction ds rule: rev_induct)
  case Nil then show ?case by (simp add: digits_value_def)
next
  case (snoc d ds)
  then have ih: "digits_value b ds < b ^ length ds" and d: "d < b" by simp_all
  have "digits_value b ds * b + d < (digits_value b ds + 1) * b" using d by simp
  also have "\<dots> \<le> b ^ length ds * b" using ih by (intro mult_right_mono) simp_all
  finally show ?case by (simp add: digits_value_snoc mult.commute)
qed

lemma hex_value_bound: "list_all is_hex z \<Longrightarrow> hex_value z < 16 ^ length z"
proof -
  assume a: "list_all is_hex z"
  have "list_all (\<lambda>d. d < 16) (map (\<lambda>c. the (hex_digit c)) z)"
    using a hex_digit_lt by (fastforce simp: list_all_iff is_hex_def)
  from digits_value_bound[OF this] show ?thesis by (simp add: hex_value_def)
qed

text \<open>
  Overflow: a run of hexadecimal digits of value \<open>2 ^ 1024\<close> is parsed to
  \<open>Infinity\<close>.
\<close>

lemma bit_length_pow2: "bit_length (2 ^ n) = Suc n"
proof (induction n)
  case 0 show ?case by (simp add: bit_length.simps)
next
  case (Suc n)
  have "bit_length (2 ^ Suc n) = Suc (bit_length (2 ^ Suc n div 2))"
    by (subst bit_length.simps) simp
  then show ?case using Suc by simp
qed

lemma to_number_overflow: "to_number (2 ^ 1024) = Infinity"
proof -
  have n: "nat \<bar>2 ^ 1024 :: int\<bar> = 2 ^ 1024" by (simp add: nat_power_eq)
  have "round_double (2 ^ 1024) = 2 ^ 1024"
    unfolding round_double_def Let_def n bit_length_pow2
    by simp
  then show ?thesis by (simp add: to_number_def)
qed

lemma hex_value_zeros: "hex_value (z @ replicate n CHR ''0'') = hex_value z * 16 ^ n"
proof (induction n)
  case 0 show ?case by simp
next
  case (Suc n)
  have d: "the (hex_digit CHR ''0'') = 0" by (simp add: hex_digit_def)
  have step: "hex_value (ys @ [CHR ''0'']) = hex_value ys * 16" for ys
    by (simp add: hex_value_def digits_value_snoc d)
  have "z @ replicate (Suc n) CHR ''0'' = (z @ replicate n CHR ''0'') @ [CHR ''0'']"
    by (simp add: replicate_append_same)
  then have "hex_value (z @ replicate (Suc n) CHR ''0'') =
      hex_value (z @ replicate n CHR ''0'') * 16"
    by (simp only: step)
  then show ?case using Suc by simp
qed

lemma parseInt16_overflow: "parseInt16 (''1'' @ replicate 256 CHR ''0'') = Infinity"
proof -
  have hx: "list_all is_hex (''1'' @ replicate 256 CHR ''0'')"
    by (simp add: list_all_iff is_hex_def hex_digit_def)
  have v: "hex_value (''1'' @ replicate 256 CHR ''0'') = 16 ^ 256"
    unfolding hex_value_zeros by (simp add: hex_value_def digits_value_def hex_digit_def)
  have "(16 :: int) ^ 256 = (2 ^ 4) ^ 256" by simp
  also have "\<dots> = 2 ^ 1024" unfolding power_mult [symmetric] by simp
  finally have p: "(16 :: int) ^ 256 = 2 ^ 1024" .
  have "parseInt16 (''1'' @ replicate 256 CHR ''0'') = to_number (int (16 ^ 256))"
    using parseInt16_hex [OF _ hx] v by simp
  then show ?thesis using p to_number_overflow by simp
qed

lemma parseSignature_fields:
  "sig_r (parseSignature sg) = ''0x'' @ take 64 (drop 2 sg)"
  "sig_s (parseSignature sg) = ''0x'' @ take 64 (drop 66 sg)"
  "sig_v (parseSignature sg) =
     (let v = parseInt16 (take 2 (drop 130 sg))
      in if num_lt v (Num 27) then num_add v (Num 27) else v)"
  by (simp_all add: parseSignature_def Let_def js_slice_nonneg js_slice_from_nonneg)

lemma parseInt16_byte:
  assumes "length z = 2" "list_all is_hex z"
  shows "parseInt16 z = Num (int (hex_value z))" "hex_value z < 256"
proof -
  have b: "hex_value z < 16 ^ length z" using assms(2) by (rule hex_value_bound)
  then show "hex_value z < 256" using assms(1) by simp
  then have "to_number (int (hex_value z)) = Num (int (hex_value z))"
    by (intro to_number_small) simp
  moreover have "z \<noteq> []" using assms(1) by auto
  ultimately show "parseInt16 z = Num (int (hex_value z))"
    using parseInt16_hex[OF _ assms(2)] by simp
qed

lemma parseSignature_v_wellformed:
  assumes "length h = 130" "list_all is_hex h"
  shows "sig_v (parseSignature (''0x'' @ h)) =
           Num (if hex_value (drop 128 h) < 27 then int (hex_value (drop 128 h)) + 27
                else int (hex_value (drop 128 h)))"
proof -
  have l: "length (drop 128 h) = 2" using assms(1) by simp
  have hx: "list_all is_hex (drop 128 h)"
    using assms(2) by (auto simp: list_all_iff dest: in_set_dropD)
  have t: "take 2 (drop 130 (''0x'' @ h)) = drop 128 h" using assms(1) by simp
  show ?thesis
    unfolding parseSignature_fields(3) t Let_def parseInt16_byte(1)[OF l hx] by simp
qed

section \<open>The signature parser\<close>

text \<open>
  C3, as the code has it. The parser checks neither the length nor the characters of its
  input and has no failing branch: for every string it returns \<open>r\<close> as \<open>0x\<close> followed
  by the characters 2 to 65 that exist and \<open>s\<close> as \<open>0x\<close> followed by the characters
  66 to 129 that exist, and \<open>v\<close> is \<open>NaN\<close> when the input has no byte 64. For a
  well-formed input (\<open>0x\<close> and 130 hexadecimal characters) \<open>r\<close> holds the 64 characters
  of bytes 0 to 31, \<open>s\<close> the 64 characters of bytes 32 to 63, and \<open>v\<close> is computed
  from byte 64.
\<close>

theorem parseSignature_no_validation:
  "sig_r (parseSignature sg) = ''0x'' @ take 64 (drop 2 sg) \<and>
   sig_s (parseSignature sg) = ''0x'' @ take 64 (drop 66 sg) \<and>
   (length sg \<le> 130 \<longrightarrow> sig_v (parseSignature sg) = NaN) \<and>
   (length h = 130 \<and> list_all is_hex h \<longrightarrow>
      sig_r (parseSignature (''0x'' @ h)) = ''0x'' @ take 64 h \<and>
      length (take 64 h) = 64 \<and>
      sig_s (parseSignature (''0x'' @ h)) = ''0x'' @ take 64 (drop 64 h) \<and>
      length (take 64 (drop 64 h)) = 64 \<and>
      sig_v (parseSignature (''0x'' @ h)) =
        Num (if hex_value (drop 128 h) < 27 then int (hex_value (drop 128 h)) + 27
             else int (hex_value (drop 128 h))))"
proof -
  have "sig_v (parseSignature sg) = NaN" if "length sg \<le> 130"
    using that by (simp add: parseSignature_fields(3) parseInt16_def strip_hex_prefix_def)
  moreover have "sig_r (parseSignature (''0x'' @ h)) = ''0x'' @ take 64 h"
    by (simp add: parseSignature_fields(1))
  moreover have "sig_s (parseSignature (''0x'' @ h)) = ''0x'' @ take 64 (drop 64 h)"
    by (simp add: parseSignature_fields(2))
  ultimately show ?thesis
    using parseSignature_v_wellformed[of h] by (simp add: parseSignature_fields(1,2))
qed


theorem parseSignature_no_validation_witness:
  "length ''0x1234'' \<le> 130 \<and> sig_v (parseSignature ''0x1234'') = NaN \<and>
   sig_r (parseSignature ''0x1234'') = ''0x1234'' \<and>
   length (''1b1b1b1b1b1b1b1b1b1b1b1b1b1b1b1b1b1b1b1b1b1b1b1b1b1b1b1b1b1b1b1bc4c4c4c4c4c4c4c4c4c4c4c4c4c4c4c4c4c4c4c4c4c4c4c4c4c4c4c4c4c4c4c401'') = 130 \<and> list_all is_hex (''1b1b1b1b1b1b1b1b1b1b1b1b1b1b1b1b1b1b1b1b1b1b1b1b1b1b1b1b1b1b1b1bc4c4c4c4c4c4c4c4c4c4c4c4c4c4c4c4c4c4c4c4c4c4c4c4c4c4c4c4c4c4c4c401'') \<and>
   sig_r (parseSignature (''0x'' @ ''1b1b1b1b1b1b1b1b1b1b1b1b1b1b1b1b1b1b1b1b1b1b1b1b1b1b1b1b1b1b1b1bc4c4c4c4c4c4c4c4c4c4c4c4c4c4c4c4c4c4c4c4c4c4c4c4c4c4c4c4c4c4c4c401'')) = ''0x1b1b1b1b1b1b1b1b1b1b1b1b1b1b1b1b1b1b1b1b1b1b1b1b1b1b1b1b1b1b1b1b'' \<and>
   sig_s (parseSignature (''0x'' @ ''1b1b1b1b1b1b1b1b1b1b1b1b1b1b1b1b1b1b1b1b1b1b1b1b1b1b1b1b1b1b1b1bc4c4c4c4c4c4c4c4c4c4c4c4c4c4c4c4c4c4c4c4c4c4c4c4c4c4c4c4c4c4c4c401'')) = ''0xc4c4c4c4c4c4c4c4c4c4c4c4c4c4c4c4c4c4c4c4c4c4c4c4c4c4c4c4c4c4c4c4'' \<and>
   sig_v (parseSignature (''0x'' @ ''1b1b1b1b1b1b1b1b1b1b1b1b1b1b1b1b1b1b1b1b1b1b1b1b1b1b1b1b1b1b1b1bc4c4c4c4c4c4c4c4c4c4c4c4c4c4c4c4c4c4c4c4c4c4c4c4c4c4c4c4c4c4c4c401'')) = Num 28"
  using parseSignature_no_validation [of "''0x1234''" "''1b1b1b1b1b1b1b1b1b1b1b1b1b1b1b1b1b1b1b1b1b1b1b1b1b1b1b1b1b1b1b1bc4c4c4c4c4c4c4c4c4c4c4c4c4c4c4c4c4c4c4c4c4c4c4c4c4c4c4c4c4c4c4c401''"]
  by (simp add: is_hex_def hex_digit_def hex_value_def digits_value_def)

text \<open>
  C3 as stated fails: the two-character body \<open>12\<close> is not a 65-byte signature, and the
  parser returns a truncated \<open>r\<close>, an empty \<open>s\<close> and \<open>NaN\<close> for \<open>v\<close>.
\<close>

theorem parseSignature_short_counterexample:
  "parseSignature ''0x12'' = \<lparr>sig_v = NaN, sig_r = ''0x12'', sig_s = ''0x''\<rparr>"
  by (simp add: parseSignature_def Let_def js_slice_def js_slice_from_def rel_index_def
      parseInt16_def strip_hex_prefix_def)


text \<open>
  C4, as the code has it. For a well-formed 65-byte signature with trailing byte \<open>b\<close>,
  \<open>v\<close> is \<open>b + 27\<close> when \<open>b < 27\<close> and \<open>b\<close> otherwise; so \<open>v\<close> lies in
  \<open>{27, 28}\<close> exactly when \<open>b\<close> is 0, 1, 27 or 28.
\<close>

theorem parseSignature_v_rule:
  assumes "length h = 130" and "list_all is_hex h"
  shows "hex_value (drop 128 h) < 256 \<and>
         sig_v (parseSignature (''0x'' @ h)) =
           Num (if hex_value (drop 128 h) < 27 then int (hex_value (drop 128 h)) + 27
                else int (hex_value (drop 128 h))) \<and>
         (sig_v (parseSignature (''0x'' @ h)) \<in> {Num 27, Num 28} \<longleftrightarrow>
            hex_value (drop 128 h) \<in> {0, 1, 27, 28})"
proof -
  have l: "length (drop 128 h) = 2" using assms(1) by simp
  have hx: "list_all is_hex (drop 128 h)"
    using assms(2) by (auto simp: list_all_iff dest: in_set_dropD)
  show ?thesis
    using parseSignature_v_wellformed[OF assms] parseInt16_byte(2)[OF l hx] by auto
qed


theorem parseSignature_v_rule_witness:
  "length (''1b1b1b1b1b1b1b1b1b1b1b1b1b1b1b1b1b1b1b1b1b1b1b1b1b1b1b1b1b1b1b1bc4c4c4c4c4c4c4c4c4c4c4c4c4c4c4c4c4c4c4c4c4c4c4c4c4c4c4c4c4c4c4c400'') = 130 \<and> list_all is_hex (''1b1b1b1b1b1b1b1b1b1b1b1b1b1b1b1b1b1b1b1b1b1b1b1b1b1b1b1b1b1b1b1bc4c4c4c4c4c4c4c4c4c4c4c4c4c4c4c4c4c4c4c4c4c4c4c4c4c4c4c4c4c4c4c400'') \<and>
   sig_v (parseSignature (''0x'' @ ''1b1b1b1b1b1b1b1b1b1b1b1b1b1b1b1b1b1b1b1b1b1b1b1b1b1b1b1b1b1b1b1bc4c4c4c4c4c4c4c4c4c4c4c4c4c4c4c4c4c4c4c4c4c4c4c4c4c4c4c4c4c4c4c400'')) = Num 27 \<and>
   length (''1b1b1b1b1b1b1b1b1b1b1b1b1b1b1b1b1b1b1b1b1b1b1b1b1b1b1b1b1b1b1b1bc4c4c4c4c4c4c4c4c4c4c4c4c4c4c4c4c4c4c4c4c4c4c4c4c4c4c4c4c4c4c4c401'') = 130 \<and> list_all is_hex (''1b1b1b1b1b1b1b1b1b1b1b1b1b1b1b1b1b1b1b1b1b1b1b1b1b1b1b1b1b1b1b1bc4c4c4c4c4c4c4c4c4c4c4c4c4c4c4c4c4c4c4c4c4c4c4c4c4c4c4c4c4c4c4c401'') \<and>
   sig_v (parseSignature (''0x'' @ ''1b1b1b1b1b1b1b1b1b1b1b1b1b1b1b1b1b1b1b1b1b1b1b1b1b1b1b1b1b1b1b1bc4c4c4c4c4c4c4c4c4c4c4c4c4c4c4c4c4c4c4c4c4c4c4c4c4c4c4c4c4c4c4c401'')) = Num 28 \<and>
   length (''1b1b1b1b1b1b1b1b1b1b1b1b1b1b1b1b1b1b1b1b1b1b1b1b1b1b1b1b1b1b1b1bc4c4c4c4c4c4c4c4c4c4c4c4c4c4c4c4c4c4c4c4c4c4c4c4c4c4c4c4c4c4c4c41b'') = 130 \<and> list_all is_hex (''1b1b1b1b1b1b1b1b1b1b1b1b1b1b1b1b1b1b1b1b1b1b1b1b1b1b1b1b1b1b1b1bc4c4c4c4c4c4c4c4c4c4c4c4c4c4c4c4c4c4c4c4c4c4c4c4c4c4c4c4c4c4c4c41b'') \<and>
   sig_v (parseSignature (''0x'' @ ''1b1b1b1b1b1b1b1b1b1b1b1b1b1b1b1b1b1b1b1b1b1b1b1b1b1b1b1b1b1b1b1bc4c4c4c4c4c4c4c4c4c4c4c4c4c4c4c4c4c4c4c4c4c4c4c4c4c4c4c4c4c4c4c41b'')) = Num 27"
  using parseSignature_v_rule [of "''1b1b1b1b1b1b1b1b1b1b1b1b1b1b1b1b1b1b1b1b1b1b1b1b1b1b1b1b1b1b1b1bc4c4c4c4c4c4c4c4c4c4c4c4c4c4c4c4c4c4c4c4c4c4c4c4c4c4c4c4c4c4c4c400''"] parseSignature_v_rule [of "''1b1b1b1b1b1b1b1b1b1b1b1b1b1b1b1b1b1b1b1b1b1b1b1b1b1b1b1b1b1b1b1bc4c4c4c4c4c4c4c4c4c4c4c4c4c4c4c4c4c4c4c4c4c4c4c4c4c4c4c4c4c4c4c401''"]
    parseSignature_v_rule [of "''1b1b1b1b1b1b1b1b1b1b1b1b1b1b1b1b1b1b1b1b1b1b1b1b1b1b1b1b1b1b1b1bc4c4c4c4c4c4c4c4c4c4c4c4c4c4c4c4c4c4c4c4c4c4c4c4c4c4c4c4c4c4c4c41b''"]
  by (simp add: is_hex_def hex_digit_def hex_value_def digits_value_def)

text \<open>
  C4 as stated fails: a 65-byte signature with trailing byte \<open>0x02\<close> is parsed to
  \<open>v = 29\<close>, outside \<open>{27, 28}\<close>.
\<close>

theorem parseSignature_v_counterexample:
  "sig_v (parseSignature (''0x'' @ ''1b1b1b1b1b1b1b1b1b1b1b1b1b1b1b1b1b1b1b1b1b1b1b1b1b1b1b1b1b1b1b1bc4c4c4c4c4c4c4c4c4c4c4c4c4c4c4c4c4c4c4c4c4c4c4c4c4c4c4c4c4c4c4c402'')) = Num 29 \<and>
   sig_v (parseSignature (''0x'' @ ''1b1b1b1b1b1b1b1b1b1b1b1b1b1b1b1b1b1b1b1b1b1b1b1b1b1b1b1b1b1b1b1bc4c4c4c4c4c4c4c4c4c4c4c4c4c4c4c4c4c4c4c4c4c4c4c4c4c4c4c4c4c4c4c402'')) \<notin> {Num 27, Num 28}"
  by (simp add: parseSignature_fields(3) parseInt16_def strip_hex_prefix_def Let_def
      is_white_space_def is_hex_def hex_digit_def hex_value_def digits_value_def
      to_number_small)

section \<open>Decoding the Permit2 allowance\<close>

lemma js_replace_0x_prefix: "js_replace ''0x'' '''' (''0x'' @ h) = h"
  by simp

lemma trim_id:
  assumes "str \<noteq> []" "\<not> is_white_space (hd str)" "\<not> is_white_space (last str)"
  shows "trim str = str"
proof -
  have 1: "dropWhile is_white_space str = str"
    using assms(1,2) by (cases str) auto
  have "rev str \<noteq> []" "\<not> is_white_space (hd (rev str))"
    using assms(1,3) by (simp_all add: hd_rev)
  then have 2: "dropWhile is_white_space (rev str) = rev str"
    by (cases "rev str") auto
  show ?thesis by (simp add: trim_def 1 2)
qed

lemma radix_digit_16: "radix_digit 16 c = is_hex c"
  by (auto simp: radix_digit_def is_hex_def split: option.splits dest: hex_digit_lt)

lemma parse_digits_hex:
  "z \<noteq> [] \<Longrightarrow> list_all is_hex z \<Longrightarrow> parse_digits 16 z = Inr (int (hex_value z))"
  by (simp add: parse_digits_def radix_digit_16 hex_value_def list_all_iff)

lemma BigInt_hex:
  assumes "z \<noteq> []" "list_all is_hex z"
  shows "BigInt (''0x'' @ z) = Inr (int (hex_value z))"
proof -
  have "is_hex (last z)" using assms by (simp add: list_all_iff)
  then have "\<not> is_white_space (last (''0x'' @ z))"
    using assms(1) by (simp add: is_hex_not_special(1))
  moreover have "\<not> is_white_space (hd (''0x'' @ z))"
    by (simp add: is_white_space_def)
  ultimately have "trim (''0x'' @ z) = ''0x'' @ z"
    by (intro trim_id) simp_all
  then show ?thesis
    using parse_digits_hex[OF assms] by (simp add: BigInt_def)
qed

lemma list_all_take_drop:
  "list_all P xs \<Longrightarrow> list_all P (take n xs)" "list_all P xs \<Longrightarrow> list_all P (drop n xs)"
  by (auto simp: list_all_iff dest: in_set_takeD in_set_dropD)

text \<open>
  C1, as the code has it. For every 3-word return value (\<open>0x\<close> and 192 hexadecimal
  characters) the decoder raises nothing: \<open>amount\<close> is the unsigned value of the whole
  first word, \<open>expiration\<close> and \<open>nonce\<close> are the values of the second and third words
  converted to a number, and no field is checked against its declared width. When all three
  fields are within bounds (\<open>amount < 2 ^ 160\<close>, the others below \<open>2 ^ 48\<close>) the
  decoder returns exactly those integers.
\<close>

theorem decodeAllowanceResult_words:
  assumes "length h = 192" and "list_all is_hex h"
  shows "let a = hex_value (take 64 h);
             e = hex_value (take 64 (drop 64 h));
             n = hex_value (drop 128 h)
         in decodeAllowanceResult (''0x'' @ h) =
              Inr \<lparr>p2_amount = int a, p2_expiration = round_double (int e),
                   p2_nonce = round_double (int n)\<rparr> \<and>
            (a < 2 ^ 160 \<and> e < 2 ^ 48 \<and> n < 2 ^ 48 \<longrightarrow>
               decodeAllowanceResult (''0x'' @ h) =
                 Inr \<lparr>p2_amount = int a, p2_expiration = int e, p2_nonce = int n\<rparr>)"
proof -
  let ?w1 = "take 64 h" and ?w2 = "take 64 (drop 64 h)" and ?w3 = "drop 128 h"
  have ne: "?w1 \<noteq> []" "?w2 \<noteq> []" "?w3 \<noteq> []" using assms(1) by auto
  have hx: "list_all is_hex ?w1" "list_all is_hex ?w2" "list_all is_hex ?w3"
    using assms(2) by (simp_all add: list_all_take_drop)
  have s1: "js_slice h (Num 0) (Num 64) = ?w1"
    and s2: "js_slice h (Num 64) (Num 128) = ?w2"
    and s3: "js_slice h (Num 128) (Num 192) = ?w3"
    using assms(1) by (simp_all add: js_slice_nonneg)
  have main: "decodeAllowanceResult (''0x'' @ h) =
      Inr \<lparr>p2_amount = int (hex_value ?w1), p2_expiration = round_double (int (hex_value ?w2)),
           p2_nonce = round_double (int (hex_value ?w3))\<rparr>"
    unfolding decodeAllowanceResult_def js_replace_0x_prefix Let_def s1 s2 s3
      BigInt_hex [OF ne(1) hx(1)] BigInt_hex [OF ne(2) hx(2)] BigInt_hex [OF ne(3) hx(3)]
    by simp
  have small: "round_double (int k) = int k" if "k < 2 ^ 48" for k :: nat
  proof (rule round_double_small)
    have "int k < 2 ^ 48" using that by (metis of_nat_less_iff of_nat_numeral of_nat_power)
    then show "\<bar>int k\<bar> < 2 ^ 53" by simp
  qed
  show ?thesis unfolding Let_def using main small by simp
qed

theorem decodeAllowanceResult_words_witness:
  "length (''0000000000000000000000000000000000000000000000000000000000002710'' @ ''0000000000000000000000000000000000000000000000000000000065f5e100'' @ ''0000000000000000000000000000000000000000000000000000000000000007'') = 192 \<and>
   list_all is_hex (''0000000000000000000000000000000000000000000000000000000000002710'' @ ''0000000000000000000000000000000000000000000000000000000065f5e100'' @ ''0000000000000000000000000000000000000000000000000000000000000007'') \<and>
   decodeAllowanceResult (''0x'' @ ''0000000000000000000000000000000000000000000000000000000000002710'' @ ''0000000000000000000000000000000000000000000000000000000065f5e100'' @ ''0000000000000000000000000000000000000000000000000000000000000007'') =
     Inr \<lparr>p2_amount = 10000, p2_expiration = 1710612736, p2_nonce = 7\<rparr>"
  using decodeAllowanceResult_words [of "''0000000000000000000000000000000000000000000000000000000000002710'' @ ''0000000000000000000000000000000000000000000000000000000065f5e100'' @ ''0000000000000000000000000000000000000000000000000000000000000007''"]
  by (simp add: is_hex_def hex_digit_def hex_value_def digits_value_def Let_def
      round_double_def)


text \<open>
  C1 as stated fails: with bit 160 of the amount word and bit 48 of the expiration word
  set, the decoder returns \<open>amount = 2 ^ 160\<close> and \<open>expiration = 2 ^ 48\<close> and raises
  no error.
\<close>

theorem decodeAllowanceResult_oversized_counterexample:
  "decodeAllowanceResult (''0x'' @ ''0000000000000000000000010000000000000000000000000000000000000000'' @ ''0000000000000000000000000000000000000000000000000001000000000000'' @ ''0000000000000000000000000000000000000000000000000000000000000000'') =
     Inr \<lparr>p2_amount = 2 ^ 160, p2_expiration = 2 ^ 48, p2_nonce = 0\<rparr>"
  by (simp add: decodeAllowanceResult_def Let_def js_slice_nonneg BigInt_def trim_def
      is_white_space_def parse_digits_def radix_digit_def hex_digit_def digits_value_def
      round_double_def)


section \<open>Decoding dynamic strings\<close>

text \<open>Unfolding the primitives on concrete strings.\<close>

lemmas eval_simps = js_slice_from_nonneg js_slice_nonneg Let_def
  parseInt16_def strip_hex_prefix_def is_white_space_def is_hex_def hex_digit_def
  hex_value_def digits_value_def to_number_small round_double_def fromCharCode_def
  BigInt_def trim_def parse_digits_def radix_digit_def

lemma js_slice_to_end:
  "0 \<le> a \<Longrightarrow> int (length str) \<le> b \<Longrightarrow>
   js_slice str (Num a) (Num b) = drop (nat a) str"
  by (auto simp: js_slice_def rel_index_def Let_def min_def)

lemma decodeEip712Domain_eval:
  assumes "js_slice_from res (Num 2) = hex"
    and "BigInt (''0x'' @ js_slice hex (Num 192) (Num 256)) = Inr c"
    and "parseInt16 (js_slice hex (Num 64) (Num 128)) = Num no"
    and "parseInt16 (js_slice hex (Num (no * 2)) (Num (no * 2 + 64))) = Num nl"
    and "parseInt16 (js_slice hex (Num 128) (Num 192)) = Num vo"
    and "parseInt16 (js_slice hex (Num (vo * 2)) (Num (vo * 2 + 64))) = Num vl"
  shows "decodeEip712Domain res tok =
           Inr \<lparr>dom_name =
                  hexToString (js_slice hex (Num (no * 2 + 64)) (Num (no * 2 + 64 + nl * 2))),
                dom_version =
                  hexToString (js_slice hex (Num (vo * 2 + 64)) (Num (vo * 2 + 64 + vl * 2))),
                dom_chainId = Num (round_double c), dom_verifyingContract = tok\<rparr>"
  unfolding decodeEip712Domain_def Let_def assms(1) assms(2) assms(3) assms(5)
  by (simp add: assms(4) assms(6))

lemma name_call_truncated:
  "getTokenName
     (scripted_provider (\<lambda>d. Inr (''0x'' @ ''00000000000000000000000000000000000000000000000000000000000000200000000000000000000000000000000000000000000000000000000000000008555344''))
        (Inr ''0x1'') (Inr []) (Inr []) (Inr ''''))
     ''0xtoken'' (0, []) =
     (Inr [0x55, 0x53, 0x44], (1, [EthCall ''0xtoken'' ''0x06fdde03'']))"
  by (simp add: getTokenName_def request_eth_call_def scripted_provider_def NAME_SELECTOR_def
       eval_simps)

lemma domain_truncated:
  "decodeEip712Domain (''0x'' @ ''000000000000000000000000000000000000000000000000000000000000000f000000000000000000000000000000000000000000000000000000000000012000000000000000000000000000000000000000000000000000000000000000e00000000000000000000000000000000000000000000000000000000000000001000000000000000000000000a0b86991c6218b36c1d19d4a2e9eb0ce3606eb4800000000000000000000000000000000000000000000000000000000000000000000000000000000000000000000000000000000000000000000000000000160000000000000000000000000000000000000000000000000000000000000000132000000000000000000000000000000000000000000000000000000000000000000000000000000000000000000000000000000000000000000000000000008555344'') ''0xtoken'' =
     Inr \<lparr>dom_name = [0x55, 0x53, 0x44], dom_version = [0x32],
          dom_chainId = Num 1, dom_verifyingContract = ''0xtoken''\<rparr>"
proof -
  let ?hex = "''000000000000000000000000000000000000000000000000000000000000000f000000000000000000000000000000000000000000000000000000000000012000000000000000000000000000000000000000000000000000000000000000e00000000000000000000000000000000000000000000000000000000000000001000000000000000000000000a0b86991c6218b36c1d19d4a2e9eb0ce3606eb4800000000000000000000000000000000000000000000000000000000000000000000000000000000000000000000000000000000000000000000000000000160000000000000000000000000000000000000000000000000000000000000000132000000000000000000000000000000000000000000000000000000000000000000000000000000000000000000000000000000000000000000000000000008555344''"
  have 1: "js_slice_from (''0x'' @ ?hex) (Num 2) = ?hex"
    by (simp add: js_slice_from_nonneg)
  have 2: "BigInt (''0x'' @ js_slice ?hex (Num 192) (Num 256)) = Inr 1"
    by (simp add: eval_simps)
  have 3: "parseInt16 (js_slice ?hex (Num 64) (Num 128)) = Num 288"
    by (simp add: eval_simps)
  have 4: "parseInt16 (js_slice ?hex (Num (288 * 2)) (Num (288 * 2 + 64))) = Num 8"
    by (simp add: eval_simps)
  have 5: "parseInt16 (js_slice ?hex (Num 128) (Num 192)) = Num 224"
    by (simp add: eval_simps)
  have 6: "parseInt16 (js_slice ?hex (Num (224 * 2)) (Num (224 * 2 + 64))) = Num 1"
    by (simp add: eval_simps)
  show ?thesis
    unfolding decodeEip712Domain_eval [OF 1 2 3 4 5 6]
    by (simp add: eval_simps)
qed

text \<open>
  C2, as the code has it. Neither decoder compares the declared length of a dynamic field
  with the data at hand, and neither raises an error for it. When the declared length of
  the \<open>name()\<close> return reaches the end of the return data or runs past it, the name is
  decoded from the data that is there. The same holds for the name inside the
  \<open>eip712Domain()\<close> return, whose decoder fails only when \<open>BigInt\<close> rejects the
  chain id word.
\<close>

theorem dynamic_decode_truncates:
  "(eth_call P tokenAddress NAME_SELECTOR (fst w) = (Inr result, st) \<and>
    parseInt16 (js_slice (drop 2 result) (Num 64) (Num 128)) = Num len \<and> 0 \<le> len \<and>
    int (length (drop 2 result)) \<le> 128 + len * 2 \<longrightarrow>
      getTokenName P tokenAddress w =
        (Inr (hexToString (drop 128 (drop 2 result))),
         (st, snd w @ [EthCall tokenAddress NAME_SELECTOR]))) \<and>
   (BigInt (''0x'' @ js_slice (drop 2 res) (Num 192) (Num 256)) = Inr c \<and>
    parseInt16 (js_slice (drop 2 res) (Num 64) (Num 128)) = Num off \<and> 0 \<le> off \<and>
    parseInt16 (js_slice (drop 2 res) (Num (off * 2)) (Num (off * 2 + 64))) = Num n \<and>
    0 \<le> n \<and> int (length (drop 2 res)) \<le> off * 2 + 64 + n * 2 \<longrightarrow>
      (\<exists>d. decodeEip712Domain res tok = Inr d \<and>
           dom_name d = hexToString (drop (nat (off * 2 + 64)) (drop 2 res))))"
proof (intro conjI impI)
  assume a: "eth_call P tokenAddress NAME_SELECTOR (fst w) = (Inr result, st) \<and>
    parseInt16 (js_slice (drop 2 result) (Num 64) (Num 128)) = Num len \<and> 0 \<le> len \<and>
    int (length (drop 2 result)) \<le> 128 + len * 2"
  then have "js_slice (drop 2 result) (Num 128) (Num (128 + len * 2)) = drop 128 (drop 2 result)"
    using js_slice_to_end [of 128 "drop 2 result" "128 + len * 2"] by simp
  with a show "getTokenName P tokenAddress w =
        (Inr (hexToString (drop 128 (drop 2 result))),
         (st, snd w @ [EthCall tokenAddress NAME_SELECTOR]))"
    by (simp add: getTokenName_def request_eth_call_def js_slice_from_nonneg Let_def)
next
  assume b: "BigInt (''0x'' @ js_slice (drop 2 res) (Num 192) (Num 256)) = Inr c \<and>
    parseInt16 (js_slice (drop 2 res) (Num 64) (Num 128)) = Num off \<and> 0 \<le> off \<and>
    parseInt16 (js_slice (drop 2 res) (Num (off * 2)) (Num (off * 2 + 64))) = Num n \<and>
    0 \<le> n \<and> int (length (drop 2 res)) \<le> off * 2 + 64 + n * 2"
  then have sl: "js_slice (drop 2 res) (Num (off * 2 + 64)) (Num (off * 2 + 64 + n * 2)) =
      drop (nat (off * 2 + 64)) (drop 2 res)"
    using js_slice_to_end [of "off * 2 + 64" "drop 2 res" "off * 2 + 64 + n * 2"] by simp
  have hex: "js_slice_from res (Num 2) = drop 2 res"
    by (simp add: js_slice_from_nonneg)
  show "\<exists>d. decodeEip712Domain res tok = Inr d \<and>
           dom_name d = hexToString (drop (nat (off * 2 + 64)) (drop 2 res))"
    unfolding decodeEip712Domain_def hex Let_def using b sl by simp
qed

theorem dynamic_decode_truncates_witness:
  "parseInt16 (js_slice (drop 2 (''0x'' @ ''00000000000000000000000000000000000000000000000000000000000000200000000000000000000000000000000000000000000000000000000000000008555344'')) (Num 64) (Num 128)) = Num 8 \<and>
   int (length (drop 2 (''0x'' @ ''00000000000000000000000000000000000000000000000000000000000000200000000000000000000000000000000000000000000000000000000000000008555344''))) \<le> 128 + 8 * 2 \<and>
   getTokenName
     (scripted_provider (\<lambda>d. Inr (''0x'' @ ''00000000000000000000000000000000000000000000000000000000000000200000000000000000000000000000000000000000000000000000000000000008555344''))
        (Inr ''0x1'') (Inr []) (Inr []) (Inr ''''))
     ''0xtoken'' (0, []) =
     (Inr (hexToString ''555344''), (1, [EthCall ''0xtoken'' NAME_SELECTOR])) \<and>
   parseInt16 (js_slice (drop 2 (''0x'' @ ''000000000000000000000000000000000000000000000000000000000000000f000000000000000000000000000000000000000000000000000000000000012000000000000000000000000000000000000000000000000000000000000000e00000000000000000000000000000000000000000000000000000000000000001000000000000000000000000a0b86991c6218b36c1d19d4a2e9eb0ce3606eb4800000000000000000000000000000000000000000000000000000000000000000000000000000000000000000000000000000000000000000000000000000160000000000000000000000000000000000000000000000000000000000000000132000000000000000000000000000000000000000000000000000000000000000000000000000000000000000000000000000000000000000000000000000008555344'')) (Num 64) (Num 128)) = Num 288 \<and>
   parseInt16 (js_slice (drop 2 (''0x'' @ ''000000000000000000000000000000000000000000000000000000000000000f000000000000000000000000000000000000000000000000000000000000012000000000000000000000000000000000000000000000000000000000000000e00000000000000000000000000000000000000000000000000000000000000001000000000000000000000000a0b86991c6218b36c1d19d4a2e9eb0ce3606eb4800000000000000000000000000000000000000000000000000000000000000000000000000000000000000000000000000000000000000000000000000000160000000000000000000000000000000000000000000000000000000000000000132000000000000000000000000000000000000000000000000000000000000000000000000000000000000000000000000000000000000000000000000000008555344'')) (Num (288 * 2)) (Num (288 * 2 + 64)))
     = Num 8 \<and>
   int (length (drop 2 (''0x'' @ ''000000000000000000000000000000000000000000000000000000000000000f000000000000000000000000000000000000000000000000000000000000012000000000000000000000000000000000000000000000000000000000000000e00000000000000000000000000000000000000000000000000000000000000001000000000000000000000000a0b86991c6218b36c1d19d4a2e9eb0ce3606eb4800000000000000000000000000000000000000000000000000000000000000000000000000000000000000000000000000000000000000000000000000000160000000000000000000000000000000000000000000000000000000000000000132000000000000000000000000000000000000000000000000000000000000000000000000000000000000000000000000000000000000000000000000000008555344''))) \<le> 288 * 2 + 64 + 8 * 2 \<and>
   (\<exists>d. decodeEip712Domain (''0x'' @ ''000000000000000000000000000000000000000000000000000000000000000f000000000000000000000000000000000000000000000000000000000000012000000000000000000000000000000000000000000000000000000000000000e00000000000000000000000000000000000000000000000000000000000000001000000000000000000000000a0b86991c6218b36c1d19d4a2e9eb0ce3606eb4800000000000000000000000000000000000000000000000000000000000000000000000000000000000000000000000000000000000000000000000000000160000000000000000000000000000000000000000000000000000000000000000132000000000000000000000000000000000000000000000000000000000000000000000000000000000000000000000000000000000000000000000000000008555344'') ''0xtoken'' = Inr d \<and>
        dom_name d = hexToString ''555344'')"
proof -
  let ?P = "scripted_provider (\<lambda>d. Inr (''0x'' @ ''00000000000000000000000000000000000000000000000000000000000000200000000000000000000000000000000000000000000000000000000000000008555344''))
        (Inr ''0x1'') (Inr []) (Inr []) (Inr '''')"
  let ?name = "''0x'' @ ''00000000000000000000000000000000000000000000000000000000000000200000000000000000000000000000000000000000000000000000000000000008555344''"
  let ?dom = "''0x'' @ ''000000000000000000000000000000000000000000000000000000000000000f000000000000000000000000000000000000000000000000000000000000012000000000000000000000000000000000000000000000000000000000000000e00000000000000000000000000000000000000000000000000000000000000001000000000000000000000000a0b86991c6218b36c1d19d4a2e9eb0ce3606eb4800000000000000000000000000000000000000000000000000000000000000000000000000000000000000000000000000000000000000000000000000000160000000000000000000000000000000000000000000000000000000000000000132000000000000000000000000000000000000000000000000000000000000000000000000000000000000000000000000000000000000000000000000000008555344''"
  have a1: "eth_call ?P ''0xtoken'' NAME_SELECTOR (fst (0, [])) = (Inr ?name, 1)"
    by (simp add: scripted_provider_def)
  have a2: "parseInt16 (js_slice (drop 2 ?name) (Num 64) (Num 128)) = Num 8"
    by (simp add: eval_simps)
  have a3: "int (length (drop 2 ?name)) \<le> 128 + 8 * 2"
    by simp
  have b1: "BigInt (''0x'' @ js_slice (drop 2 ?dom) (Num 192) (Num 256)) = Inr 1"
    by (simp add: eval_simps)
  have b2: "parseInt16 (js_slice (drop 2 ?dom) (Num 64) (Num 128)) = Num 288"
    by (simp add: eval_simps)
  have b3: "parseInt16 (js_slice (drop 2 ?dom) (Num (288 * 2)) (Num (288 * 2 + 64))) = Num 8"
    by (simp add: eval_simps)
  have b4: "int (length (drop 2 ?dom)) \<le> 288 * 2 + 64 + 8 * 2"
    by simp
  have d1: "drop 128 (drop 2 ?name) = ''555344''" by simp
  have d2: "drop (nat (288 * 2 + 64)) (drop 2 ?dom) = ''555344''" by simp
  from dynamic_decode_truncates [of ?P "''0xtoken''" "(0, [])" ?name 1 8 ?dom 1 288 8 "''0xtoken''"]
  have "getTokenName ?P ''0xtoken'' (0, []) =
          (Inr (hexToString (drop 128 (drop 2 ?name))), (1, [EthCall ''0xtoken'' NAME_SELECTOR]))"
    and "\<exists>d. decodeEip712Domain ?dom ''0xtoken'' = Inr d \<and>
           dom_name d = hexToString (drop (nat (288 * 2 + 64)) (drop 2 ?dom))"
    using a1 a2 a3 b1 b2 b3 b4 by simp_all
  then show ?thesis
    unfolding d1 d2 using a2 a3 b2 b3 b4 by simp
qed


text \<open>
  C2 as stated fails. A \<open>name()\<close> return that declares 8 bytes and carries 3 is decoded to
  the 3 characters \<open>USD\<close>; an \<open>eip712Domain()\<close> return whose name declares 8 bytes and
  carries 3 is decoded the same way. Neither raises an error.
\<close>

theorem dynamic_decode_truncates_counterexample:
  "getTokenName
     (scripted_provider (\<lambda>d. Inr (''0x'' @ ''00000000000000000000000000000000000000000000000000000000000000200000000000000000000000000000000000000000000000000000000000000008555344''))
        (Inr ''0x1'') (Inr []) (Inr []) (Inr ''''))
     ''0xtoken'' (0, []) =
     (Inr [0x55, 0x53, 0x44], (1, [EthCall ''0xtoken'' ''0x06fdde03''])) \<and>
   decodeEip712Domain (''0x'' @ ''000000000000000000000000000000000000000000000000000000000000000f000000000000000000000000000000000000000000000000000000000000012000000000000000000000000000000000000000000000000000000000000000e00000000000000000000000000000000000000000000000000000000000000001000000000000000000000000a0b86991c6218b36c1d19d4a2e9eb0ce3606eb4800000000000000000000000000000000000000000000000000000000000000000000000000000000000000000000000000000000000000000000000000000160000000000000000000000000000000000000000000000000000000000000000132000000000000000000000000000000000000000000000000000000000000000000000000000000000000000000000000000000000000000000000000000008555344'') ''0xtoken'' =
     Inr \<lparr>dom_name = [0x55, 0x53, 0x44], dom_version = [0x32],
          dom_chainId = Num 1, dom_verifyingContract = ''0xtoken''\<rparr>"
  using name_call_truncated domain_truncated by (rule conjI)


section \<open>Allowance sufficiency\<close>














section \<open>Resolving the EIP-712 domain\<close>




section \<open>Signing\<close>

text \<open>
  C9. Two \<open>signERC20Permit\<close> calls that differ only in \<open>tokenName\<close> give the same
  result, leave the provider in the same state and send the same requests with the same
  payloads: the parameter is not used.
\<close>

theorem tokenName_unused:
  "signERC20Permit P VS now_ms (params\<lparr>sp_tokenName := a\<rparr>) w =
   signERC20Permit P VS now_ms (params\<lparr>sp_tokenName := b\<rparr>) w"
  by (simp add: signERC20Permit_def)








section \<open>Connecting a Solana wallet\<close>

lemma find_provider_Some:
  "find_provider win expectedAddress wls = Some wl \<Longrightarrow>
   \<exists>p. win wl = Some p \<and> isConnected p \<and> publicKey p = Key expectedAddress"
  by (induction wls) (auto split: option.splits if_splits public_key.splits)

lemma solflare_step_Inr:
  assumes "solflare_step connect win expectedAddress = (Inr wl, win')"
  shows "wl = SolflareWallet \<and>
         (\<exists>p'. win' SolflareWallet = Some p' \<and> publicKey p' = Key expectedAddress)"
  using assms
  by (auto simp: solflare_step_def
      split: option.splits prod.splits sum.splits public_key.splits if_splits)

lemma solflare_step_Inl:
  assumes "solflare_step connect win expectedAddress = (Inl e, win')"
  shows "e = not_found expectedAddress"
  using assms
  by (auto simp: solflare_step_def
      split: option.splits prod.splits sum.splits public_key.splits if_splits)

text \<open>
  C10, as the code has it. Whenever \<open>connectSolanaWallet\<close> returns a provider, a key
  was compared with the expected address, as strings, on the path taken: either the
  provider was found already connected and its own key is the expected address, or it is
  Phantom and the answer of its \<open>connect()\<close> carried the expected address (the key of
  the provider object is not read on this path), or it is Solflare and its own key after
  \<open>connect()\<close> is the expected address. In every other case the function throws the
  not-found error.
\<close>

theorem connectSolanaWallet_checks_address:
  "(connectSolanaWallet connect win expectedAddress = (Inr wl, win') \<longrightarrow>
      (findConnectedProvider win expectedAddress = Some wl \<and> win' = win \<and>
       (\<exists>p. win wl = Some p \<and> isConnected p \<and> publicKey p = Key expectedAddress)) \<or>
      (findConnectedProvider win expectedAddress = None \<and> wl = PhantomWallet \<and>
       (\<exists>p p'. win PhantomWallet = Some p \<and>
          connect PhantomWallet p = (Inr (Key expectedAddress), p') \<and>
          win' = win(PhantomWallet \<mapsto> p'))) \<or>
      (findConnectedProvider win expectedAddress = None \<and> wl = SolflareWallet \<and>
       (\<exists>p'. win' SolflareWallet = Some p' \<and> publicKey p' = Key expectedAddress))) \<and>
   (connectSolanaWallet connect win expectedAddress = (Inl e, win') \<longrightarrow>
      e = not_found expectedAddress)"
proof (intro conjI impI)
  assume a: "connectSolanaWallet connect win expectedAddress = (Inr wl, win')"
  show "(findConnectedProvider win expectedAddress = Some wl \<and> win' = win \<and>
       (\<exists>p. win wl = Some p \<and> isConnected p \<and> publicKey p = Key expectedAddress)) \<or>
      (findConnectedProvider win expectedAddress = None \<and> wl = PhantomWallet \<and>
       (\<exists>p p'. win PhantomWallet = Some p \<and>
          connect PhantomWallet p = (Inr (Key expectedAddress), p') \<and>
          win' = win(PhantomWallet \<mapsto> p'))) \<or>
      (findConnectedProvider win expectedAddress = None \<and> wl = SolflareWallet \<and>
       (\<exists>p'. win' SolflareWallet = Some p' \<and> publicKey p' = Key expectedAddress))"
  proof (cases "findConnectedProvider win expectedAddress")
    case (Some c)
    then have "wl = c" "win' = win" using a by (simp_all add: connectSolanaWallet_def)
    moreover have "\<exists>p. win c = Some p \<and> isConnected p \<and> publicKey p = Key expectedAddress"
      using Some unfolding findConnectedProvider_def by (rule find_provider_Some)
    ultimately show ?thesis using Some by simp
  next
    case None
    show ?thesis
    proof (cases "win PhantomWallet")
      case n: None
      then have "solflare_step connect win expectedAddress = (Inr wl, win')"
        using a None by (simp add: connectSolanaWallet_def)
      from solflare_step_Inr [OF this] None show ?thesis by simp
    next
      case s: (Some p)
      obtain r p' where c: "connect PhantomWallet p = (r, p')" by (cases "connect PhantomWallet p")
      show ?thesis
      proof (cases "r = Inr (Key expectedAddress)")
        case True
        then show ?thesis using a None s c by (simp add: connectSolanaWallet_def)
      next
        case False
        then have "solflare_step connect (win(PhantomWallet \<mapsto> p')) expectedAddress = (Inr wl, win')"
          using a None s c
          by (auto simp: connectSolanaWallet_def split: sum.splits public_key.splits if_splits)
        from solflare_step_Inr [OF this] None show ?thesis by simp
      qed
    qed
  qed
next
  assume a: "connectSolanaWallet connect win expectedAddress = (Inl e, win')"
  then show "e = not_found expectedAddress"
    by (auto simp: connectSolanaWallet_def dest: solflare_step_Inl
        split: option.splits prod.splits sum.splits public_key.splits if_splits)
qed

theorem connectSolanaWallet_checks_address_witness:
  "connectSolanaWallet
     (\<lambda>wl p. (Inr (Key ''7xKXtg2CW87d97TXJSDpbD5jBkheTqA83TZRuJosgAsU''),
              p\<lparr>isConnected := True,
                publicKey := Key ''7xKXtg2CW87d97TXJSDpbD5jBkheTqA83TZRuJosgAsU''\<rparr>))
     [PhantomWallet \<mapsto> \<lparr>isConnected = False, publicKey = Null\<rparr>]
     ''7xKXtg2CW87d97TXJSDpbD5jBkheTqA83TZRuJosgAsU'' =
   (Inr PhantomWallet,
    [PhantomWallet \<mapsto> \<lparr>isConnected = False, publicKey = Null\<rparr>]
      (PhantomWallet \<mapsto>
         \<lparr>isConnected = True,
          publicKey = Key ''7xKXtg2CW87d97TXJSDpbD5jBkheTqA83TZRuJosgAsU''\<rparr>)) \<and>
   findConnectedProvider [PhantomWallet \<mapsto> \<lparr>isConnected = False, publicKey = Null\<rparr>]
     ''7xKXtg2CW87d97TXJSDpbD5jBkheTqA83TZRuJosgAsU'' = None \<and>
   connectSolanaWallet (\<lambda>wl p. (Inl (Rejected ''User rejected the request''), p))
     [PhantomWallet \<mapsto> \<lparr>isConnected = True,
        publicKey = Key ''7XKXTG2CW87D97TXJSDPBD5JBKHETQA83TZRUJOSGASU''\<rparr>]
     ''7xKXtg2CW87d97TXJSDpbD5jBkheTqA83TZRuJosgAsU'' =
   (Inl (not_found ''7xKXtg2CW87d97TXJSDpbD5jBkheTqA83TZRuJosgAsU''),
    [PhantomWallet \<mapsto> \<lparr>isConnected = True,
        publicKey = Key ''7XKXTG2CW87D97TXJSDPBD5JBKHETQA83TZRUJOSGASU''\<rparr>]
      (PhantomWallet \<mapsto> \<lparr>isConnected = True,
        publicKey = Key ''7XKXTG2CW87D97TXJSDPBD5JBKHETQA83TZRUJOSGASU''\<rparr>))"
proof -
  let ?addr = "''7xKXtg2CW87d97TXJSDpbD5jBkheTqA83TZRuJosgAsU''"
  let ?c1 = "\<lambda>(wl :: wallet) p. (Inr (Key ?addr) :: error + public_key,
              p\<lparr>isConnected := True, publicKey := Key ?addr\<rparr>)"
  let ?w1 = "[PhantomWallet \<mapsto> \<lparr>isConnected = False, publicKey = Null\<rparr>]"
  let ?c2 = "\<lambda>(wl :: wallet) (p :: SolanaProvider).
      (Inl (Rejected ''User rejected the request'') :: error + public_key, p)"
  let ?p2 = "\<lparr>isConnected = True,
        publicKey = Key ''7XKXTG2CW87D97TXJSDPBD5JBKHETQA83TZRUJOSGASU''\<rparr>"
  let ?w2 = "[PhantomWallet \<mapsto> ?p2]"
  have r1: "connectSolanaWallet ?c1 ?w1 ?addr =
      (Inr PhantomWallet, ?w1(PhantomWallet \<mapsto> \<lparr>isConnected = True, publicKey = Key ?addr\<rparr>))"
    by (simp add: connectSolanaWallet_def findConnectedProvider_def)
  have r2: "\<exists>e. connectSolanaWallet ?c2 ?w2 ?addr = (Inl e, ?w2(PhantomWallet \<mapsto> ?p2))"
    by (simp add: connectSolanaWallet_def findConnectedProvider_def solflare_step_def)
  then obtain e where r2': "connectSolanaWallet ?c2 ?w2 ?addr = (Inl e, ?w2(PhantomWallet \<mapsto> ?p2))"
    by blast
  from connectSolanaWallet_checks_address [of ?c1 ?w1 ?addr PhantomWallet
      "?w1(PhantomWallet \<mapsto> \<lparr>isConnected = True, publicKey = Key ?addr\<rparr>)"] r1
  have f: "findConnectedProvider ?w1 ?addr = None"
    by auto
  from connectSolanaWallet_checks_address [of ?c2 ?w2 ?addr _ "?w2(PhantomWallet \<mapsto> ?p2)" e] r2'
  have "e = not_found ?addr" by blast
  with r1 f r2' show ?thesis by simp
qed

text \<open>
  C10 as stated fails on the Phantom path: there the function compares the key in the answer
  of \<open>connect()\<close> and never reads the key of the provider object it returns. With a
  \<open>connect()\<close> that answers with the expected address and leaves the provider object with
  another key, the function returns that provider.
\<close>

theorem connectSolanaWallet_phantom_counterexample:
  "connectSolanaWallet
     (\<lambda>wl p. (Inr (Key ''7xKXtg2CW87d97TXJSDpbD5jBkheTqA83TZRuJosgAsU''),
              p\<lparr>isConnected := True,
                publicKey := Key ''9WzDXwBbmkg8ZTbNMqUxvQRAyrZzDsGYdLVL9zYtAWWM''\<rparr>))
     [PhantomWallet \<mapsto> \<lparr>isConnected = False, publicKey = Null\<rparr>]
     ''7xKXtg2CW87d97TXJSDpbD5jBkheTqA83TZRuJosgAsU'' =
   (Inr PhantomWallet,
    [PhantomWallet \<mapsto>
       \<lparr>isConnected = True,
        publicKey = Key ''9WzDXwBbmkg8ZTbNMqUxvQRAyrZzDsGYdLVL9zYtAWWM''\<rparr>]) \<and>
   map_option publicKey
     ([PhantomWallet \<mapsto>
         \<lparr>isConnected = True,
          publicKey = Key ''9WzDXwBbmkg8ZTbNMqUxvQRAyrZzDsGYdLVL9zYtAWWM''\<rparr>] PhantomWallet) =
     Some (Key ''9WzDXwBbmkg8ZTbNMqUxvQRAyrZzDsGYdLVL9zYtAWWM'') \<and>
   Key ''9WzDXwBbmkg8ZTbNMqUxvQRAyrZzDsGYdLVL9zYtAWWM'' \<noteq>
     Key ''7xKXtg2CW87d97TXJSDpbD5jBkheTqA83TZRuJosgAsU''"
  by (simp add: connectSolanaWallet_def findConnectedProvider_def)


section \<open>Base64 round trip\<close>

lemma b64_table:
  "list_all (\<lambda>k. b64_index (b64_char k) = Some k \<and> b64_char k \<noteq> CHR ''='' \<and>
      \<not> is_ascii_whitespace (b64_char k)) [0..<64]"
  by code_simp

lemma b64_char_facts:
  assumes "k < 64"
  shows "b64_index (b64_char k) = Some k" "b64_char k \<noteq> CHR ''=''"
    "\<not> is_ascii_whitespace (b64_char k)" "is_b64 (b64_char k)"
proof -
  have "k \<in> set [0..<64]" using assms by simp
  with b64_table show "b64_index (b64_char k) = Some k" "b64_char k \<noteq> CHR ''=''"
    "\<not> is_ascii_whitespace (b64_char k)"
    unfolding list_all_iff by blast+
  then show "is_b64 (b64_char k)" by (simp add: is_b64_def)
qed

lemma sextet_bounds:
  fixes a b c :: nat
  assumes "a < 256" "b < 256" "c < 256"
  shows "a div 4 < 64" "a mod 4 * 16 + b div 16 < 64" "a mod 4 * 16 < 64"
    "b mod 16 * 4 + c div 64 < 64" "b mod 16 * 4 < 64" "c mod 64 < 64"
proof -
  show "a div 4 < 64" using assms by simp
  have "a mod 4 < 4" "b div 16 < 16" "b mod 16 < 16" "c div 64 < 4" using assms by simp_all
  then show "a mod 4 * 16 + b div 16 < 64" "a mod 4 * 16 < 64"
    "b mod 16 * 4 + c div 64 < 64" "b mod 16 * 4 < 64" by linarith+
  show "c mod 64 < 64" by simp
qed

lemma regroup:
  fixes a b c :: nat
  shows "b < 256 \<Longrightarrow> a div 4 * 4 + (a mod 4 * 16 + b div 16) div 16 = a"
    and "b < 256 \<Longrightarrow> c < 256 \<Longrightarrow>
      (a mod 4 * 16 + b div 16) mod 16 * 16 + (b mod 16 * 4 + c div 64) div 4 = b"
    and "c < 256 \<Longrightarrow> (b mod 16 * 4 + c div 64) mod 4 * 64 + c mod 64 = c"
    and "a div 4 * 4 + (a mod 4 * 16) div 16 = a"
    and "b < 256 \<Longrightarrow> (a mod 4 * 16 + b div 16) mod 16 * 16 + (b mod 16 * 4) div 4 = b"
proof -
  have 1: "(x * 16 + y) div 16 = x" "(x * 16 + y) mod 16 = y" if "y < 16" for x y :: nat
    using that by simp_all
  have 2: "(x * 4 + y) div 4 = x" "(x * 4 + y) mod 4 = y" if "y < 4" for x y :: nat
    using that by simp_all
  show "a div 4 * 4 + (a mod 4 * 16 + b div 16) div 16 = a" if "b < 256"
  proof -
    have "b div 16 < 16" using that by simp
    then show ?thesis by (simp add: 1)
  qed
  show "(a mod 4 * 16 + b div 16) mod 16 * 16 + (b mod 16 * 4 + c div 64) div 4 = b"
    if "b < 256" "c < 256"
  proof -
    have "b div 16 < 16" "c div 64 < 4" using that by simp_all
    then show ?thesis by (simp add: 1 2)
  qed
  show "(b mod 16 * 4 + c div 64) mod 4 * 64 + c mod 64 = c" if "c < 256"
  proof -
    have "c div 64 < 4" using that by simp
    then show ?thesis by (simp add: 2)
  qed
  show "a div 4 * 4 + (a mod 4 * 16) div 16 = a" by simp
  show "(a mod 4 * 16 + b div 16) mod 16 * 16 + (b mod 16 * 4) div 4 = b" if "b < 256"
  proof -
    have "b div 16 < 16" using that by simp
    then show ?thesis by (simp add: 1)
  qed
qed

lemma b64_encode_length: "length (b64_encode ns) mod 4 = 0"
  by (induction ns rule: b64_encode.induct) simp_all

lemma b64_encode_Nil: "b64_encode ns = [] \<longleftrightarrow> ns = []"
  by (cases ns rule: b64_encode.cases) simp_all

lemma equals_not_whitespace: "\<not> is_ascii_whitespace CHR ''=''"
  by (simp add: is_ascii_whitespace_def)

lemma b64_encode_no_whitespace:
  "list_all (\<lambda>n. n < 256) ns \<Longrightarrow>
   filter (\<lambda>c. \<not> is_ascii_whitespace c) (b64_encode ns) = b64_encode ns"
proof (induction ns rule: b64_encode.induct)
  case 1
  then show ?case by simp
next
  case (2 a)
  then show ?case
    using sextet_bounds [of a 0 0]
    by (simp add: b64_char_facts(3) equals_not_whitespace)
next
  case (3 a b)
  then show ?case
    using sextet_bounds [of a b 0]
    by (simp add: b64_char_facts(3) equals_not_whitespace)
next
  case (4 a b c rest)
  then show ?case
    using sextet_bounds [of a b c]
    by (simp add: b64_char_facts(3))
qed

lemma strip_padding_append:
  assumes "2 \<le> length ys"
  shows "strip_padding (xs @ ys) = xs @ strip_padding ys"
proof -
  have ne: "ys \<noteq> []" "butlast ys \<noteq> []"
    using assms by (auto simp: butlast_conv_take)
  then have "last (xs @ ys) = last ys" "butlast (xs @ ys) = xs @ butlast ys"
    "last (butlast (xs @ ys)) = last (butlast ys)"
    "butlast (butlast (xs @ ys)) = xs @ butlast (butlast ys)"
    by (simp_all add: butlast_append)
  then show ?thesis
    using assms ne by (simp add: strip_padding_def)
qed

lemma strip_padding_encode:
  "strip_padding (b64_encode []) = []"
  "strip_padding (b64_encode [a]) = [b64_char (a div 4), b64_char (a mod 4 * 16)]"
  "strip_padding (b64_encode [a, b]) =
     [b64_char (a div 4), b64_char (a mod 4 * 16 + b div 16), b64_char (b mod 16 * 4)]"
  "strip_padding (b64_encode (a # b # c # rest)) =
     [b64_char (a div 4), b64_char (a mod 4 * 16 + b div 16),
      b64_char (b mod 16 * 4 + c div 64), b64_char (c mod 64)] @
     strip_padding (b64_encode rest)"
proof -
  show "strip_padding (b64_encode []) = []" by (simp add: strip_padding_def)
  show "strip_padding (b64_encode [a]) = [b64_char (a div 4), b64_char (a mod 4 * 16)]"
    by (simp add: strip_padding_def)
  have "b mod 16 * 4 < 64" using sextet_bounds(5) [of 0 b 0] by simp
  then show "strip_padding (b64_encode [a, b]) =
     [b64_char (a div 4), b64_char (a mod 4 * 16 + b div 16), b64_char (b mod 16 * 4)]"
    by (simp add: strip_padding_def b64_char_facts(2))
  show "strip_padding (b64_encode (a # b # c # rest)) =
     [b64_char (a div 4), b64_char (a mod 4 * 16 + b div 16),
      b64_char (b mod 16 * 4 + c div 64), b64_char (c mod 64)] @
     strip_padding (b64_encode rest)"
  proof (cases "rest = []")
    case True
    have "c mod 64 < 64" by simp
    then have "b64_char (c mod 64) \<noteq> CHR ''=''" by (rule b64_char_facts(2))
    then show ?thesis using True by (simp add: strip_padding_def)
  next
    case False
    then have "b64_encode rest \<noteq> []" by (simp add: b64_encode_Nil)
    moreover have "length (b64_encode rest) mod 4 = 0" by (rule b64_encode_length)
    ultimately have "2 \<le> length (b64_encode rest)"
      by (cases "b64_encode rest") (auto simp: Suc_le_eq)
    then show ?thesis
      using strip_padding_append [of "b64_encode rest"
        "[b64_char (a div 4), b64_char (a mod 4 * 16 + b div 16),
          b64_char (b mod 16 * 4 + c div 64), b64_char (c mod 64)]"]
      by simp
  qed
qed

lemma b64_decode_encode:
  assumes "list_all (\<lambda>n. n < 256) ns"
  shows "list_all is_b64 (strip_padding (b64_encode ns)) \<and>
         length (strip_padding (b64_encode ns)) mod 4 \<noteq> 1 \<and>
         b64_decode (map (\<lambda>c. the (b64_index c)) (strip_padding (b64_encode ns))) = ns"
  using assms
proof (induction ns rule: b64_encode.induct)
  case 1
  then show ?case by (simp add: strip_padding_def)
next
  case (2 a)
  then have bd: "a < 256" by simp
  have "b64_decode [a div 4, a mod 4 * 16] = [a]"
    by (simp only: b64_decode.simps regroup(4))
  then show ?case
    unfolding strip_padding_encode(2)
    using sextet_bounds [of a 0 0] bd
    by (simp add: b64_char_facts del: b64_decode.simps)
next
  case (3 a b)
  then have bd: "a < 256" "b < 256" by simp_all
  have "b64_decode [a div 4, a mod 4 * 16 + b div 16, b mod 16 * 4] = [a, b]"
    by (simp only: b64_decode.simps regroup(1) [OF bd(2)] regroup(5) [OF bd(2)])
  then show ?case
    unfolding strip_padding_encode(3)
    using sextet_bounds [of a b 0] bd
    by (simp add: b64_char_facts del: b64_decode.simps)
next
  case (4 a b c rest)
  then have ih: "list_all is_b64 (strip_padding (b64_encode rest))"
    "length (strip_padding (b64_encode rest)) mod 4 \<noteq> 1"
    "b64_decode (map (\<lambda>c. the (b64_index c)) (strip_padding (b64_encode rest))) = rest"
    and bd: "a < 256" "b < 256" "c < 256"
    by simp_all
  have "b64_decode (a div 4 # (a mod 4 * 16 + b div 16) # (b mod 16 * 4 + c div 64) #
      c mod 64 # xs) = a # b # c # b64_decode xs" for xs
    by (simp only: b64_decode.simps regroup(1) [OF bd(2)] regroup(2) [OF bd(2,3)]
        regroup(3) [OF bd(3)] append_Cons append_Nil)
  then show ?case
    unfolding strip_padding_encode(4)
    using ih bd sextet_bounds [OF bd]
    by (simp add: b64_char_facts del: b64_decode.simps)
qed

lemma atob_encode:
  assumes "list_all (\<lambda>n. n < 256) ns"
  shows "atob (b64_encode ns) = Inr (map word_of_nat ns)"
  using b64_decode_encode [OF assms]
  by (simp add: atob_def b64_encode_no_whitespace [OF assms] b64_encode_length Let_def)

lemma unat_byte_less: "unat (b :: 8 word) < 256"
proof -
  have "unat b < 2 ^ LENGTH(8)" by (rule unsigned_less)
  then show ?thesis by simp
qed

lemma unat_fromCharCode_byte: "unat (fromCharCode (Num (uint b))) = unat b" for b :: "8 word"
proof -
  have "fromCharCode (Num (uint b)) = (ucast b :: 16 word)"
    by (simp add: fromCharCode_def)
  moreover have "unat (ucast b :: 16 word) = unat b"
    using unat_byte_less [of b] by (simp add: unsigned_ucast_eq take_bit_nat_eq_self)
  ultimately show ?thesis by simp
qed

lemma binary_of_bytes:
  "map unat (map (\<lambda>b :: 8 word. fromCharCode (Num (uint b))) bytes) = map unat bytes"
  "\<not> list_ex (\<lambda>c. 255 < unat c) (map (\<lambda>b :: 8 word. fromCharCode (Num (uint b))) bytes)"
  "list_all (\<lambda>n. n < 256) (map unat (bytes :: 8 word list))"
proof -
  show "map unat (map (\<lambda>b :: 8 word. fromCharCode (Num (uint b))) bytes) = map unat bytes"
    by (simp add: unat_fromCharCode_byte)
  have "\<not> 255 < unat b" for b :: "8 word"
    using unat_byte_less [of b] by simp
  then show "\<not> list_ex (\<lambda>c. 255 < unat c)
      (map (\<lambda>b :: 8 word. fromCharCode (Num (uint b))) bytes)"
    by (simp add: list_ex_iff unat_fromCharCode_byte)
  show "list_all (\<lambda>n. n < 256) (map unat (bytes :: 8 word list))"
    using unat_byte_less by (simp add: list_all_iff)
qed

text \<open>
  C8. For every byte sequence \<open>b\<close>, \<open>uint8ArrayToBase64\<close> returns a string, and
  \<open>base64ToUint8Array\<close> of that string returns \<open>b\<close>.
\<close>

theorem base64_roundtrip:
  "\<exists>s. uint8ArrayToBase64 b = Inr s \<and> base64ToUint8Array s = Inr b"
proof -
  have enc: "uint8ArrayToBase64 b = Inr (b64_encode (map unat b))"
    unfolding uint8ArrayToBase64_def btoa_def binary_of_bytes(1)
    using binary_of_bytes(2) [of b] by simp
  have "(ucast (ucast x :: 16 word) :: 8 word) = x" for x :: "8 word"
    by (rule ucast_up_ucast_id) (simp add: is_up)
  then have bytes:
    "map (\<lambda>c :: 16 word. (ucast c :: 8 word)) (map word_of_nat (map unat b)) = b"
    by (induction b) simp_all
  have "base64ToUint8Array (b64_encode (map unat b)) = Inr b"
    by (simp only: base64ToUint8Array_def atob_encode [OF binary_of_bytes(3)] sum.case bytes)
  with enc show ?thesis by blast
qed

theorem base64_roundtrip_witness:
  "uint8ArrayToBase64 [0x48, 0x69, 0x21, 0xff] = Inr ''SGkh/w=='' \<and>
   base64ToUint8Array ''SGkh/w=='' = Inr [0x48, 0x69, 0x21, 0xff]"
proof -
  have e: "uint8ArrayToBase64 [0x48, 0x69, 0x21, 0xff] = Inr ''SGkh/w==''"
    by (simp add: uint8ArrayToBase64_def btoa_def fromCharCode_def b64_char_def
        b64_alphabet_def)
  with base64_roundtrip [of "[0x48, 0x69, 0x21, 0xff]"] show ?thesis by simp
qed


end
